theory Spec2Isabelle
  imports Main "HOL-Library.Sublist"
begin

section \<open>Python values and subscripting\<close>

text \<open>
  The values that flow through \<^verbatim>\<open>workflow_api.py\<close>: literals, the sequences and
  dictionaries a node implementation returns as its output collection, and framework
  objects (models, tensors, node instances), which the script only passes along.
  A float literal is kept as its source text: the script never computes with one.
  A dictionary is an association list read with \<open>map_of\<close>; its keys are the
  integers and strings the script subscripts with.
\<close>

datatype pykey = KInt int | KStr string

datatype pyval =
    VNone
  | VInt int
  | VFloat string
  | VStr string
  | VList "pyval list"
  | VTuple "pyval list"
  | VDict "(pykey \<times> pyval) list"
  | VObj nat

text \<open>
  The exceptions of the model. \<open>KeyError\<close>, \<open>IndexError\<close> and
  \<open>TypeError\<close> are what subscripting raises; \<open>Raised\<close> is any other exception,
  by name, raised by a collaborator outside the file.
\<close>

datatype exn = KeyError | IndexError | TypeError | Raised string

text \<open>
  \<^verbatim>\<open>xs[i]\<close> on a list, tuple or string: a negative index counts from the end,
  and a position outside the sequence raises \<open>IndexError\<close>.
\<close>

definition seq_getitem :: "'a list \<Rightarrow> int \<Rightarrow> exn + 'a" where
  "seq_getitem xs i =
     (let n = int (length xs); j = (if i < 0 then i + n else i)
      in if 0 \<le> j \<and> j < n then Inr (xs ! nat j) else Inl IndexError)"

text \<open>
  \<^verbatim>\<open>obj[key]\<close>. A sequence takes an integer and raises \<open>TypeError\<close> on a string;
  a dictionary looks the key up and raises \<open>KeyError\<close> when it is absent; \<open>None\<close>,
  numbers and framework objects are not subscriptable.
\<close>

fun py_getitem :: "pyval \<Rightarrow> pykey \<Rightarrow> exn + pyval" where
  "py_getitem (VList xs) (KInt i) = seq_getitem xs i"
| "py_getitem (VTuple xs) (KInt i) = seq_getitem xs i"
| "py_getitem (VStr s) (KInt i) =
     (case seq_getitem s i of Inl e \<Rightarrow> Inl e | Inr c \<Rightarrow> Inr (VStr [c]))"
| "py_getitem (VDict kvs) k =
     (case map_of kvs k of None \<Rightarrow> Inl KeyError | Some v \<Rightarrow> Inr v)"
| "py_getitem _ _ = Inl TypeError"

text \<open>
  \<^verbatim>\<open>
  def get_value_at_index(obj, index):
      try:
          return obj[index]
      except KeyError:
          return obj["result"][index]
  \<close>
  Only \<open>KeyError\<close> is caught; every other exception of \<^verbatim>\<open>obj[index]\<close> leaves the
  function as it is, and so does every exception of the handler.
\<close>

definition get_value_at_index :: "pyval \<Rightarrow> int \<Rightarrow> exn + pyval" where
  "get_value_at_index obj index =
     (case py_getitem obj (KInt index) of
        Inr v \<Rightarrow> Inr v
      | Inl e \<Rightarrow>
          if e = KeyError
          then (case py_getitem obj (KStr ''result'') of
                  Inl e' \<Rightarrow> Inl e'
                | Inr sub \<Rightarrow> py_getitem sub (KInt index))
          else Inl e)"

section \<open>External operations and runs\<close>

text \<open>
  Everything the script calls outside the file is an external operation: a function or
  constructor called by name with positional arguments, the constructor found under a key
  of \<^verbatim>\<open>NODE_CLASS_MAPPINGS\<close>, or a method of an instance called with keyword
  arguments.
\<close>

datatype extcall =
    Function string "pyval list"
  | Registry string
  | Method pyval string "(string \<times> pyval) list"

text \<open>
  The environment answers an external call in the current state of the outside world
  (loaded models, files, the node registry) with a value or an exception and the next
  state of the world. The world is a type parameter: nothing is assumed about it.
\<close>

type_synonym 'w ext = "extcall \<Rightarrow> 'w \<Rightarrow> (exn + pyval) \<times> 'w"

text \<open>
  A run carries the world and the invocations made so far, oldest first. An event records
  the variable the result is assigned to (\<open>None\<close> for an expression statement), the call
  and what it returned or raised.
\<close>

record event =
  target :: "string option"
  call :: extcall
  outcome :: "exn + pyval"

record 'w run =
  world :: 'w
  trace :: "event list"

type_synonym ('w, 'a) prog = "'w run \<Rightarrow> (exn + 'a) \<times> 'w run"

definition return :: "'a \<Rightarrow> ('w, 'a) prog" where
  "return x = (\<lambda>s. (Inr x, s))"

text \<open>Sequencing: an exception of the first statement skips the rest.\<close>

definition bind :: "('w, 'a) prog \<Rightarrow> ('a \<Rightarrow> ('w, 'b) prog) \<Rightarrow> ('w, 'b) prog" where
  "bind m f = (\<lambda>s. case m s of (Inl e, s') \<Rightarrow> (Inl e, s') | (Inr x, s') \<Rightarrow> f x s')"

definition invoke :: "'w ext \<Rightarrow> string option \<Rightarrow> extcall \<Rightarrow> ('w, pyval) prog" where
  "invoke ext tgt c =
     (\<lambda>s. case ext c (world s) of
        (r, w') \<Rightarrow>
          (r, \<lparr>world = w', trace = trace s @ [\<lparr>target = tgt, call = c, outcome = r\<rparr>]\<rparr>))"

text \<open>
  Keyword arguments are evaluated left to right before the call; the first one that
  raises ends the statement and the method is not invoked.
\<close>

fun eval_kwargs :: "(string \<times> (exn + pyval)) list \<Rightarrow> exn + (string \<times> pyval) list" where
  "eval_kwargs [] = Inr []"
| "eval_kwargs ((k, a) # rest) =
     (case a of
        Inl e \<Rightarrow> Inl e
      | Inr v \<Rightarrow> (case eval_kwargs rest of Inl e \<Rightarrow> Inl e | Inr kws \<Rightarrow> Inr ((k, v) # kws)))"

definition call_method ::
  "'w ext \<Rightarrow> string option \<Rightarrow> pyval \<Rightarrow> string \<Rightarrow> (string \<times> (exn + pyval)) list
    \<Rightarrow> ('w, pyval) prog" where
  "call_method ext tgt self name kwargs =
     (\<lambda>s. case eval_kwargs kwargs of
        Inl e \<Rightarrow> (Inl e, s)
      | Inr kws \<Rightarrow> invoke ext tgt (Method self name kws) s)"

abbreviation lit :: "pyval \<Rightarrow> exn + pyval" where
  "lit v \<equiv> Inr v"

text \<open>\<^verbatim>\<open>for q in xs: body\<close>, and \<^verbatim>\<open>range(n)\<close>.\<close>

fun for_in :: "'q list \<Rightarrow> ('q \<Rightarrow> ('w, unit) prog) \<Rightarrow> ('w, unit) prog" where
  "for_in [] body = return ()"
| "for_in (q # qs) body = bind (body q) (\<lambda>_. for_in qs body)"

definition py_range :: "nat \<Rightarrow> int list" where
  "py_range n = map int [0..<n]"

section \<open>The script\<close>

text \<open>
  \<^verbatim>\<open>import_custom_nodes\<close>: a new event loop is made the default one, the prompt
  server and its queue are created on it, and the custom nodes are initialised.
\<close>

definition import_custom_nodes :: "'w ext \<Rightarrow> ('w, unit) prog" where
  "import_custom_nodes ext =
     bind (invoke ext (Some ''loop'') (Function ''asyncio.new_event_loop'' [])) (\<lambda>loop.
     bind (invoke ext None (Function ''asyncio.set_event_loop'' [loop])) (\<lambda>_.
     bind (invoke ext (Some ''server_instance'') (Function ''server.PromptServer'' [loop]))
       (\<lambda>server_instance.
     bind (invoke ext None (Function ''execution.PromptQueue'' [server_instance])) (\<lambda>_.
     bind (invoke ext None (Function ''init_custom_nodes'' [])) (\<lambda>_.
     return ())))))"

text \<open>
  \<^verbatim>\<open>main\<close>, statement by statement; every bound variable carries the name of the
  Python variable it stands for, and the same name is the target of the event.
  \<open>noise_seed\<close> is the number \<^verbatim>\<open>random.randint(1, 2**64)\<close> returned. The two
  \<^verbatim>\<open>print\<close> calls at the end and the \<^verbatim>\<open>torch.inference_mode()\<close> block around the
  body change neither a value nor the order of the calls and are left out.
\<close>

definition main :: "'w ext \<Rightarrow> int \<Rightarrow> ('w, unit) prog" where
  "main ext noise_seed =
     bind (import_custom_nodes ext) (\<lambda>_.
     bind (invoke ext (Some ''checkpointloadersimple'') (Function ''CheckpointLoaderSimple'' []))
       (\<lambda>checkpointloadersimple.
     bind (call_method ext (Some ''checkpointloadersimple_4'') checkpointloadersimple
            ''load_checkpoint''
            [(''ckpt_name'', lit (VStr ''DisneyPixarCartoontypeB.safetensors''))])
       (\<lambda>checkpointloadersimple_4.
     bind (invoke ext (Some ''cliptextencode'') (Function ''CLIPTextEncode'' []))
       (\<lambda>cliptextencode.
     bind (call_method ext (Some ''cliptextencode_6'') cliptextencode ''encode''
            [(''text'', lit (VStr
               ''image of a man with grey woolen coat, front pose, light brown hair'')),
             (''clip'', get_value_at_index checkpointloadersimple_4 1)])
       (\<lambda>cliptextencode_6.
     bind (call_method ext (Some ''cliptextencode_7'') cliptextencode ''encode''
            [(''text'', lit (VStr ''text, watermark'')),
             (''clip'', get_value_at_index checkpointloadersimple_4 1)])
       (\<lambda>cliptextencode_7.
     bind (invoke ext (Some ''loadimage'') (Function ''LoadImage'' []))
       (\<lambda>loadimage.
     bind (call_method ext (Some ''loadimage_14'') loadimage ''load_image''
            [(''image'', lit (VStr ''disney.png''))])
       (\<lambda>loadimage_14.
     bind (invoke ext (Some ''vaeloader'') (Function ''VAELoader'' []))
       (\<lambda>vaeloader.
     bind (call_method ext (Some ''vaeloader_26'') vaeloader ''load_vae''
            [(''vae_name'', lit (VStr ''vae-ft-mse-840000-ema-pruned.safetensors''))])
       (\<lambda>vaeloader_26.
     bind (invoke ext (Some ''vaeencode'') (Function ''VAEEncode'' []))
       (\<lambda>vaeencode.
     bind (call_method ext (Some ''vaeencode_15'') vaeencode ''encode''
            [(''pixels'', get_value_at_index loadimage_14 0),
             (''vae'', get_value_at_index vaeloader_26 0)])
       (\<lambda>vaeencode_15.
     bind (invoke ext (Some ''controlnetloader'') (Function ''ControlNetLoader'' []))
       (\<lambda>controlnetloader.
     bind (call_method ext (Some ''controlnetloader_19'') controlnetloader ''load_controlnet''
            [(''control_net_name'', lit (VStr ''control_v11f1p_sd15_depth_fp16.safetensors''))])
       (\<lambda>controlnetloader_19.
     bind (call_method ext (Some ''cliptextencode_21'') cliptextencode ''encode''
            [(''text'', lit (VStr (''a ((disney pixar cartoon)) highly detailed image of a man ''
               @ ''with grey woolen coat, front pose, light brown hair'' @ [CHR 0x0A]
               @ ''vibrant, distinct colors, with a clear, smudge-free background. ''
               @ ''Emphasize sharp details and smooth textures.''))),
             (''clip'', get_value_at_index checkpointloadersimple_4 1)])
       (\<lambda>cliptextencode_21.
     bind (call_method ext (Some ''cliptextencode_24'') cliptextencode ''encode''
            [(''text'', lit (VStr ''text, watermark, photo, smudge, '')),
             (''clip'', get_value_at_index checkpointloadersimple_4 1)])
       (\<lambda>cliptextencode_24.
     bind (call_method ext (Some ''controlnetloader_29'') controlnetloader ''load_controlnet''
            [(''control_net_name'', lit (VStr ''control_v11p_sd15_canny_fp16.safetensors''))])
       (\<lambda>controlnetloader_29.
     bind (invoke ext (Some ''aio_preprocessor'') (Registry ''AIO_Preprocessor''))
       (\<lambda>aio_preprocessor.
     bind (invoke ext (Some ''controlnetapplyadvanced'') (Function ''ControlNetApplyAdvanced'' []))
       (\<lambda>controlnetapplyadvanced.
     bind (invoke ext (Some ''bnk_unsampler'') (Registry ''BNK_Unsampler''))
       (\<lambda>bnk_unsampler.
     bind (invoke ext (Some ''ksampleradvanced'') (Function ''KSamplerAdvanced'' []))
       (\<lambda>ksampleradvanced.
     bind (invoke ext (Some ''vaedecode'') (Function ''VAEDecode'' []))
       (\<lambda>vaedecode.
     bind (invoke ext (Some ''previewimg'') (Function ''PreviewImage'' []))
       (\<lambda>previewimg.
     bind (invoke ext (Some ''imageupscalewithmodel'') (Registry ''ImageUpscaleWithModel''))
       (\<lambda>imageupscalewithmodel.
     bind (invoke ext (Some ''midas_depthmappreprocessor'')
            (Registry ''MiDaS-DepthMapPreprocessor''))
       (\<lambda>midas_depthmappreprocessor.
     for_in (py_range 1) (\<lambda>q.
       bind (call_method ext (Some ''aio_preprocessor_44'') aio_preprocessor ''execute''
              [(''preprocessor'', lit (VStr ''Zoe-DepthMapPreprocessor'')),
               (''resolution'', lit (VInt 512)),
               (''image'', get_value_at_index loadimage_14 0)])
         (\<lambda>aio_preprocessor_44.
       bind (call_method ext (Some ''controlnetapplyadvanced_25'') controlnetapplyadvanced
              ''apply_controlnet''
              [(''strength'', lit (VFloat ''0.45'')),
               (''start_percent'', lit (VInt 0)),
               (''end_percent'', lit (VFloat ''0.5'')),
               (''positive'', get_value_at_index cliptextencode_21 0),
               (''negative'', get_value_at_index cliptextencode_24 0),
               (''control_net'', get_value_at_index controlnetloader_19 0),
               (''image'', get_value_at_index aio_preprocessor_44 0)])
         (\<lambda>controlnetapplyadvanced_25.
       bind (call_method ext (Some ''aio_preprocessor_43'') aio_preprocessor ''execute''
              [(''preprocessor'', lit (VStr ''LineArtPreprocessor'')),
               (''resolution'', lit (VInt 512)),
               (''image'', get_value_at_index loadimage_14 0)])
         (\<lambda>aio_preprocessor_43.
       bind (call_method ext (Some ''controlnetapplyadvanced_30'') controlnetapplyadvanced
              ''apply_controlnet''
              [(''strength'', lit (VFloat ''0.45'')),
               (''start_percent'', lit (VInt 0)),
               (''end_percent'', lit (VFloat ''0.5'')),
               (''positive'', get_value_at_index controlnetapplyadvanced_25 0),
               (''negative'', get_value_at_index controlnetapplyadvanced_25 1),
               (''control_net'', get_value_at_index controlnetloader_29 0),
               (''image'', get_value_at_index aio_preprocessor_43 0)])
         (\<lambda>controlnetapplyadvanced_30.
       bind (call_method ext (Some ''bnk_unsampler_13'') bnk_unsampler ''unsampler''
              [(''steps'', lit (VInt 30)),
               (''end_at_step'', lit (VInt 0)),
               (''cfg'', lit (VInt 1)),
               (''sampler_name'', lit (VStr ''dpmpp_2m'')),
               (''scheduler'', lit (VStr ''karras'')),
               (''normalize'', lit (VStr ''disable'')),
               (''model'', get_value_at_index checkpointloadersimple_4 0),
               (''positive'', get_value_at_index cliptextencode_6 0),
               (''negative'', get_value_at_index cliptextencode_7 0),
               (''latent_image'', get_value_at_index vaeencode_15 0)])
         (\<lambda>bnk_unsampler_13.
       bind (call_method ext (Some ''ksampleradvanced_16'') ksampleradvanced ''sample''
              [(''add_noise'', lit (VStr ''disable'')),
               (''noise_seed'', lit (VInt noise_seed)),
               (''steps'', lit (VInt 20)),
               (''cfg'', lit (VFloat ''4.5'')),
               (''sampler_name'', lit (VStr ''dpmpp_2m'')),
               (''scheduler'', lit (VStr ''karras'')),
               (''start_at_step'', lit (VInt 0)),
               (''end_at_step'', lit (VInt 25)),
               (''return_with_leftover_noise'', lit (VStr ''disable'')),
               (''model'', get_value_at_index checkpointloadersimple_4 0),
               (''positive'', get_value_at_index controlnetapplyadvanced_30 0),
               (''negative'', get_value_at_index controlnetapplyadvanced_30 1),
               (''latent_image'', get_value_at_index bnk_unsampler_13 0)])
         (\<lambda>ksampleradvanced_16.
       bind (call_method ext (Some ''vaedecode_8'') vaedecode ''decode''
              [(''samples'', get_value_at_index ksampleradvanced_16 0),
               (''vae'', get_value_at_index vaeloader_26 0)])
         (\<lambda>vaedecode_8.
       bind (call_method ext (Some ''midas_depthmappreprocessor_50'') midas_depthmappreprocessor
              ''execute''
              [(''a'', lit (VFloat ''6.283185307179586'')),
               (''bg_threshold'', lit (VFloat ''0.1'')),
               (''resolution'', lit (VInt 512)),
               (''image'', get_value_at_index loadimage_14 0)])
         (\<lambda>midas_depthmappreprocessor_50.
       bind (invoke ext (Some ''saveImg'') (Function ''SaveImage'' []))
         (\<lambda>saveImg.
       bind (call_method ext (Some ''finale'') saveImg ''save_images''
              [(''images'', py_getitem vaedecode_8 (KInt 0)),
               (''filename_prefix'', lit (VStr ''OutPut''))])
         (\<lambda>finale.
       return ())))))))))))
     )))))))))))))))))))))))))"

text \<open>A run of \<^verbatim>\<open>main\<close> from a state of the world, with nothing invoked yet.\<close>

definition run_main :: "'w ext \<Rightarrow> int \<Rightarrow> 'w \<Rightarrow> (exn + unit) \<times> 'w run" where
  "run_main ext noise_seed w = main ext noise_seed \<lparr>world = w, trace = []\<rparr>"

section \<open>Collections shared by reference\<close>

text \<open>
  In Python the output collection of a node is an object, shared by reference with the
  operation that returned it and with every operation it is handed to: a collaborator
  can change a list or dictionary in place after it has returned it. Where that matters
  the world carries a store from addresses to the current contents of such collections,
  a framework object \<open>VObj a\<close> with an entry at \<open>a\<close> stands for the collection
  stored there, and a subscript reads the store at the moment it is evaluated.
\<close>

type_synonym store = "nat \<rightharpoonup> pyval"

definition deref :: "store \<Rightarrow> pyval \<Rightarrow> pyval" where
  "deref h v = (case v of VObj a \<Rightarrow> (case h a of None \<Rightarrow> v | Some c \<Rightarrow> c) | _ \<Rightarrow> v)"

definition py_getitem_in :: "store \<Rightarrow> pyval \<Rightarrow> pykey \<Rightarrow> exn + pyval" where
  "py_getitem_in h obj k = py_getitem (deref h obj) k"

definition get_value_at_index_in :: "store \<Rightarrow> pyval \<Rightarrow> int \<Rightarrow> exn + pyval" where
  "get_value_at_index_in h obj index =
     (case py_getitem_in h obj (KInt index) of
        Inr v \<Rightarrow> Inr v
      | Inl e \<Rightarrow>
          if e = KeyError
          then (case py_getitem_in h obj (KStr ''result'') of
                  Inl e' \<Rightarrow> Inl e'
                | Inr sub \<Rightarrow> py_getitem_in h sub (KInt index))
          else Inl e)"

text \<open>
  Keyword arguments that depend on the store: a literal, a call of
  \<^verbatim>\<open>get_value_at_index\<close>, a plain subscript. \<^verbatim>\<open>call_method_shared\<close> evaluates them
  in the store of the moment of the call.
\<close>

definition fixed :: "pyval \<Rightarrow> store \<Rightarrow> exn + pyval" where
  "fixed v = (\<lambda>h. Inr v)"

definition read_value_at_index :: "pyval \<Rightarrow> int \<Rightarrow> store \<Rightarrow> exn + pyval" where
  "read_value_at_index obj index = (\<lambda>h. get_value_at_index_in h obj index)"

definition read_item :: "pyval \<Rightarrow> pykey \<Rightarrow> store \<Rightarrow> exn + pyval" where
  "read_item obj k = (\<lambda>h. py_getitem_in h obj k)"

definition call_method_shared ::
  "('u \<times> store) ext \<Rightarrow> string option \<Rightarrow> pyval \<Rightarrow> string
    \<Rightarrow> (string \<times> (store \<Rightarrow> exn + pyval)) list \<Rightarrow> ('u \<times> store, pyval) prog" where
  "call_method_shared ext tgt self name kwargs =
     (\<lambda>s. call_method ext tgt self name (map (\<lambda>(k, a). (k, a (snd (world s)))) kwargs) s)"

text \<open>
  \<^verbatim>\<open>main\<close> again, statement for statement, over a world with a store: the same calls in
  the same order, every \<^verbatim>\<open>get_value_at_index\<close> and the subscript of the save reading
  the store when its statement runs.
\<close>

definition main_shared :: "('u \<times> store) ext \<Rightarrow> int \<Rightarrow> ('u \<times> store, unit) prog" where
  "main_shared ext noise_seed =
     bind (import_custom_nodes ext) (\<lambda>_.
     bind (invoke ext (Some ''checkpointloadersimple'') (Function ''CheckpointLoaderSimple'' []))
       (\<lambda>checkpointloadersimple.
     bind (call_method_shared ext (Some ''checkpointloadersimple_4'') checkpointloadersimple
            ''load_checkpoint''
            [(''ckpt_name'', fixed (VStr ''DisneyPixarCartoontypeB.safetensors''))])
       (\<lambda>checkpointloadersimple_4.
     bind (invoke ext (Some ''cliptextencode'') (Function ''CLIPTextEncode'' []))
       (\<lambda>cliptextencode.
     bind (call_method_shared ext (Some ''cliptextencode_6'') cliptextencode ''encode''
            [(''text'', fixed (VStr
               ''image of a man with grey woolen coat, front pose, light brown hair'')),
             (''clip'', read_value_at_index checkpointloadersimple_4 1)])
       (\<lambda>cliptextencode_6.
     bind (call_method_shared ext (Some ''cliptextencode_7'') cliptextencode ''encode''
            [(''text'', fixed (VStr ''text, watermark'')),
             (''clip'', read_value_at_index checkpointloadersimple_4 1)])
       (\<lambda>cliptextencode_7.
     bind (invoke ext (Some ''loadimage'') (Function ''LoadImage'' []))
       (\<lambda>loadimage.
     bind (call_method_shared ext (Some ''loadimage_14'') loadimage ''load_image''
            [(''image'', fixed (VStr ''disney.png''))])
       (\<lambda>loadimage_14.
     bind (invoke ext (Some ''vaeloader'') (Function ''VAELoader'' []))
       (\<lambda>vaeloader.
     bind (call_method_shared ext (Some ''vaeloader_26'') vaeloader ''load_vae''
            [(''vae_name'', fixed (VStr ''vae-ft-mse-840000-ema-pruned.safetensors''))])
       (\<lambda>vaeloader_26.
     bind (invoke ext (Some ''vaeencode'') (Function ''VAEEncode'' []))
       (\<lambda>vaeencode.
     bind (call_method_shared ext (Some ''vaeencode_15'') vaeencode ''encode''
            [(''pixels'', read_value_at_index loadimage_14 0),
             (''vae'', read_value_at_index vaeloader_26 0)])
       (\<lambda>vaeencode_15.
     bind (invoke ext (Some ''controlnetloader'') (Function ''ControlNetLoader'' []))
       (\<lambda>controlnetloader.
     bind (call_method_shared ext (Some ''controlnetloader_19'') controlnetloader ''load_controlnet''
            [(''control_net_name'', fixed (VStr ''control_v11f1p_sd15_depth_fp16.safetensors''))])
       (\<lambda>controlnetloader_19.
     bind (call_method_shared ext (Some ''cliptextencode_21'') cliptextencode ''encode''
            [(''text'', fixed (VStr (''a ((disney pixar cartoon)) highly detailed image of a man ''
               @ ''with grey woolen coat, front pose, light brown hair'' @ [CHR 0x0A]
               @ ''vibrant, distinct colors, with a clear, smudge-free background. ''
               @ ''Emphasize sharp details and smooth textures.''))),
             (''clip'', read_value_at_index checkpointloadersimple_4 1)])
       (\<lambda>cliptextencode_21.
     bind (call_method_shared ext (Some ''cliptextencode_24'') cliptextencode ''encode''
            [(''text'', fixed (VStr ''text, watermark, photo, smudge, '')),
             (''clip'', read_value_at_index checkpointloadersimple_4 1)])
       (\<lambda>cliptextencode_24.
     bind (call_method_shared ext (Some ''controlnetloader_29'') controlnetloader ''load_controlnet''
            [(''control_net_name'', fixed (VStr ''control_v11p_sd15_canny_fp16.safetensors''))])
       (\<lambda>controlnetloader_29.
     bind (invoke ext (Some ''aio_preprocessor'') (Registry ''AIO_Preprocessor''))
       (\<lambda>aio_preprocessor.
     bind (invoke ext (Some ''controlnetapplyadvanced'') (Function ''ControlNetApplyAdvanced'' []))
       (\<lambda>controlnetapplyadvanced.
     bind (invoke ext (Some ''bnk_unsampler'') (Registry ''BNK_Unsampler''))
       (\<lambda>bnk_unsampler.
     bind (invoke ext (Some ''ksampleradvanced'') (Function ''KSamplerAdvanced'' []))
       (\<lambda>ksampleradvanced.
     bind (invoke ext (Some ''vaedecode'') (Function ''VAEDecode'' []))
       (\<lambda>vaedecode.
     bind (invoke ext (Some ''previewimg'') (Function ''PreviewImage'' []))
       (\<lambda>previewimg.
     bind (invoke ext (Some ''imageupscalewithmodel'') (Registry ''ImageUpscaleWithModel''))
       (\<lambda>imageupscalewithmodel.
     bind (invoke ext (Some ''midas_depthmappreprocessor'')
            (Registry ''MiDaS-DepthMapPreprocessor''))
       (\<lambda>midas_depthmappreprocessor.
     for_in (py_range 1) (\<lambda>q.
       bind (call_method_shared ext (Some ''aio_preprocessor_44'') aio_preprocessor ''execute''
              [(''preprocessor'', fixed (VStr ''Zoe-DepthMapPreprocessor'')),
               (''resolution'', fixed (VInt 512)),
               (''image'', read_value_at_index loadimage_14 0)])
         (\<lambda>aio_preprocessor_44.
       bind (call_method_shared ext (Some ''controlnetapplyadvanced_25'') controlnetapplyadvanced
              ''apply_controlnet''
              [(''strength'', fixed (VFloat ''0.45'')),
               (''start_percent'', fixed (VInt 0)),
               (''end_percent'', fixed (VFloat ''0.5'')),
               (''positive'', read_value_at_index cliptextencode_21 0),
               (''negative'', read_value_at_index cliptextencode_24 0),
               (''control_net'', read_value_at_index controlnetloader_19 0),
               (''image'', read_value_at_index aio_preprocessor_44 0)])
         (\<lambda>controlnetapplyadvanced_25.
       bind (call_method_shared ext (Some ''aio_preprocessor_43'') aio_preprocessor ''execute''
              [(''preprocessor'', fixed (VStr ''LineArtPreprocessor'')),
               (''resolution'', fixed (VInt 512)),
               (''image'', read_value_at_index loadimage_14 0)])
         (\<lambda>aio_preprocessor_43.
       bind (call_method_shared ext (Some ''controlnetapplyadvanced_30'') controlnetapplyadvanced
              ''apply_controlnet''
              [(''strength'', fixed (VFloat ''0.45'')),
               (''start_percent'', fixed (VInt 0)),
               (''end_percent'', fixed (VFloat ''0.5'')),
               (''positive'', read_value_at_index controlnetapplyadvanced_25 0),
               (''negative'', read_value_at_index controlnetapplyadvanced_25 1),
               (''control_net'', read_value_at_index controlnetloader_29 0),
               (''image'', read_value_at_index aio_preprocessor_43 0)])
         (\<lambda>controlnetapplyadvanced_30.
       bind (call_method_shared ext (Some ''bnk_unsampler_13'') bnk_unsampler ''unsampler''
              [(''steps'', fixed (VInt 30)),
               (''end_at_step'', fixed (VInt 0)),
               (''cfg'', fixed (VInt 1)),
               (''sampler_name'', fixed (VStr ''dpmpp_2m'')),
               (''scheduler'', fixed (VStr ''karras'')),
               (''normalize'', fixed (VStr ''disable'')),
               (''model'', read_value_at_index checkpointloadersimple_4 0),
               (''positive'', read_value_at_index cliptextencode_6 0),
               (''negative'', read_value_at_index cliptextencode_7 0),
               (''latent_image'', read_value_at_index vaeencode_15 0)])
         (\<lambda>bnk_unsampler_13.
       bind (call_method_shared ext (Some ''ksampleradvanced_16'') ksampleradvanced ''sample''
              [(''add_noise'', fixed (VStr ''disable'')),
               (''noise_seed'', fixed (VInt noise_seed)),
               (''steps'', fixed (VInt 20)),
               (''cfg'', fixed (VFloat ''4.5'')),
               (''sampler_name'', fixed (VStr ''dpmpp_2m'')),
               (''scheduler'', fixed (VStr ''karras'')),
               (''start_at_step'', fixed (VInt 0)),
               (''end_at_step'', fixed (VInt 25)),
               (''return_with_leftover_noise'', fixed (VStr ''disable'')),
               (''model'', read_value_at_index checkpointloadersimple_4 0),
               (''positive'', read_value_at_index controlnetapplyadvanced_30 0),
               (''negative'', read_value_at_index controlnetapplyadvanced_30 1),
               (''latent_image'', read_value_at_index bnk_unsampler_13 0)])
         (\<lambda>ksampleradvanced_16.
       bind (call_method_shared ext (Some ''vaedecode_8'') vaedecode ''decode''
              [(''samples'', read_value_at_index ksampleradvanced_16 0),
               (''vae'', read_value_at_index vaeloader_26 0)])
         (\<lambda>vaedecode_8.
       bind (call_method_shared ext (Some ''midas_depthmappreprocessor_50'')
              midas_depthmappreprocessor ''execute''
              [(''a'', fixed (VFloat ''6.283185307179586'')),
               (''bg_threshold'', fixed (VFloat ''0.1'')),
               (''resolution'', fixed (VInt 512)),
               (''image'', read_value_at_index loadimage_14 0)])
         (\<lambda>midas_depthmappreprocessor_50.
       bind (invoke ext (Some ''saveImg'') (Function ''SaveImage'' []))
         (\<lambda>saveImg.
       bind (call_method_shared ext (Some ''finale'') saveImg ''save_images''
              [(''images'', read_item vaedecode_8 (KInt 0)),
               (''filename_prefix'', fixed (VStr ''OutPut''))])
         (\<lambda>finale.
       return ())))))))))))
     )))))))))))))))))))))))))"


definition run_main_shared ::
  "('u \<times> store) ext \<Rightarrow> int \<Rightarrow> 'u \<Rightarrow> store \<Rightarrow> (exn + unit) \<times> ('u \<times> store) run" where
  "run_main_shared ext noise_seed u h = main_shared ext noise_seed \<lparr>world = (u, h), trace = []\<rparr>"


section \<open>The bootstrap\<close>

text \<open>
  The file system as \<^verbatim>\<open>find_path\<close> sees it, through \<^verbatim>\<open>os.getcwd\<close>,
  \<^verbatim>\<open>os.listdir\<close>, \<^verbatim>\<open>os.path.isdir\<close>, \<^verbatim>\<open>os.path.join\<close> and
  \<^verbatim>\<open>os.path.dirname\<close>. These are functions of the standard library, not of the
  file, so they are parameters; the first two may raise.
\<close>

record filesystem =
  getcwd :: "exn + string"
  listdir :: "string \<Rightarrow> exn + string list"
  isdir :: "string \<Rightarrow> bool"
  path_join :: "string \<Rightarrow> string \<Rightarrow> string"
  dirname :: "string \<Rightarrow> string"

text \<open>
  \<^verbatim>\<open>find_path(name, path=None)\<close> walks up from \<open>path\<close> (the working directory when
  it is \<open>None\<close>) until a directory lists \<open>name\<close>, and gives up with \<open>None\<close> at
  the directory that is its own parent. Nothing bounds the walk for an arbitrary
  \<open>dirname\<close>, so the outer \<open>option\<close> is \<open>None\<close> when the call does not return.
  The message it prints is left out.
\<close>

partial_function (option) find_path ::
  "filesystem \<Rightarrow> string \<Rightarrow> string option \<Rightarrow> (exn + string option) option" where
  "find_path fs name path =
     (case (case path of None \<Rightarrow> getcwd fs | Some p \<Rightarrow> Inr p) of
        Inl e \<Rightarrow> Some (Inl e)
      | Inr path \<Rightarrow>
          (case listdir fs path of
             Inl e \<Rightarrow> Some (Inl e)
           | Inr entries \<Rightarrow>
               if name \<in> set entries then Some (Inr (Some (path_join fs path name)))
               else let parent_directory = dirname fs path
                    in if parent_directory = path then Some (Inr None)
                       else find_path fs name (Some parent_directory)))"

text \<open>
  \<^verbatim>\<open>add_comfyui_directory_to_sys_path\<close>, as a function from \<^verbatim>\<open>sys.path\<close> to the
  \<^verbatim>\<open>sys.path\<close> it leaves behind.
\<close>

definition add_comfyui_directory_to_sys_path ::
  "filesystem \<Rightarrow> string list \<Rightarrow> (exn + string list) option" where
  "add_comfyui_directory_to_sys_path fs sys_path =
     (case find_path fs ''ComfyUI'' None of
        None \<Rightarrow> None
      | Some (Inl e) \<Rightarrow> Some (Inl e)
      | Some (Inr comfyui_path) \<Rightarrow>
          (case comfyui_path of
             None \<Rightarrow> Some (Inr sys_path)
           | Some p \<Rightarrow> if isdir fs p then Some (Inr (sys_path @ [p])) else Some (Inr sys_path)))"

section \<open>What a run shows\<close>

text \<open>
  A step is the pair of an event's target and the name of the operation invoked. The
  steps of \<^verbatim>\<open>main\<close>, in the order of the statements of the source (those of
  \<^verbatim>\<open>import_custom_nodes\<close> first), and among them the steps that evaluate a node: the
  method calls whose result is one of the numbered variables, and the save.
\<close>

fun op_name :: "extcall \<Rightarrow> string" where
  "op_name (Function f _) = f"
| "op_name (Registry k) = k"
| "op_name (Method _ m _) = m"

definition step_of :: "event \<Rightarrow> string option \<times> string" where
  "step_of ev = (target ev, op_name (call ev))"

definition succeeded :: "event \<Rightarrow> bool" where
  "succeeded ev = (case outcome ev of Inl _ \<Rightarrow> False | Inr _ \<Rightarrow> True)"

definition main_steps :: "(string option \<times> string) list" where
  "main_steps =
     [(Some ''loop'', ''asyncio.new_event_loop''),
      (None, ''asyncio.set_event_loop''),
      (Some ''server_instance'', ''server.PromptServer''),
      (None, ''execution.PromptQueue''),
      (None, ''init_custom_nodes''),
      (Some ''checkpointloadersimple'', ''CheckpointLoaderSimple''),
      (Some ''checkpointloadersimple_4'', ''load_checkpoint''),
      (Some ''cliptextencode'', ''CLIPTextEncode''),
      (Some ''cliptextencode_6'', ''encode''),
      (Some ''cliptextencode_7'', ''encode''),
      (Some ''loadimage'', ''LoadImage''),
      (Some ''loadimage_14'', ''load_image''),
      (Some ''vaeloader'', ''VAELoader''),
      (Some ''vaeloader_26'', ''load_vae''),
      (Some ''vaeencode'', ''VAEEncode''),
      (Some ''vaeencode_15'', ''encode''),
      (Some ''controlnetloader'', ''ControlNetLoader''),
      (Some ''controlnetloader_19'', ''load_controlnet''),
      (Some ''cliptextencode_21'', ''encode''),
      (Some ''cliptextencode_24'', ''encode''),
      (Some ''controlnetloader_29'', ''load_controlnet''),
      (Some ''aio_preprocessor'', ''AIO_Preprocessor''),
      (Some ''controlnetapplyadvanced'', ''ControlNetApplyAdvanced''),
      (Some ''bnk_unsampler'', ''BNK_Unsampler''),
      (Some ''ksampleradvanced'', ''KSamplerAdvanced''),
      (Some ''vaedecode'', ''VAEDecode''),
      (Some ''previewimg'', ''PreviewImage''),
      (Some ''imageupscalewithmodel'', ''ImageUpscaleWithModel''),
      (Some ''midas_depthmappreprocessor'', ''MiDaS-DepthMapPreprocessor''),
      (Some ''aio_preprocessor_44'', ''execute''),
      (Some ''controlnetapplyadvanced_25'', ''apply_controlnet''),
      (Some ''aio_preprocessor_43'', ''execute''),
      (Some ''controlnetapplyadvanced_30'', ''apply_controlnet''),
      (Some ''bnk_unsampler_13'', ''unsampler''),
      (Some ''ksampleradvanced_16'', ''sample''),
      (Some ''vaedecode_8'', ''decode''),
      (Some ''midas_depthmappreprocessor_50'', ''execute''),
      (Some ''saveImg'', ''SaveImage''),
      (Some ''finale'', ''save_images'')]"


text \<open>
  The shape of the events one program adds to the trace, against the steps it is written
  to take: the events follow the steps in order; every event but the last succeeded; a
  program that returns has taken every step; one that raises \<open>e\<close> has no failed event
  other than one that raised \<open>e\<close>.
\<close>

definition shape :: "(string option \<times> string) list \<Rightarrow> exn + 'a \<Rightarrow> event list \<Rightarrow> bool" where
  "shape steps r evs \<longleftrightarrow>
     prefix (map step_of evs) steps \<and> list_all succeeded (butlast evs) \<and>
     (case r of
        Inr _ \<Rightarrow> map step_of evs = steps \<and> list_all succeeded evs
      | Inl e \<Rightarrow> list_all (\<lambda>ev. succeeded ev \<or> outcome ev = Inl e) evs)"

definition follows :: "('w, 'a) prog \<Rightarrow> (string option \<times> string) list \<Rightarrow> bool" where
  "follows m steps \<longleftrightarrow>
     (\<forall>s. \<exists>evs. trace (snd (m s)) = trace s @ evs \<and> shape steps (fst (m s)) evs)"

text \<open>
  The edges of the pipeline, read off the source: one for every
  \<^verbatim>\<open>get_value_at_index(v, i)\<close> among the keyword arguments of a call, and one for the
  subscript \<^verbatim>\<open>vaedecode_8[0]\<close> handed to the save. An edge names the consumer, its
  keyword, the producer, the index, and how the output collection is read.
\<close>

datatype reader = Resolved | Subscripted

definition access :: "reader \<Rightarrow> pyval \<Rightarrow> int \<Rightarrow> exn + pyval" where
  "access rd obj i =
     (case rd of Resolved \<Rightarrow> get_value_at_index obj i | Subscripted \<Rightarrow> py_getitem obj (KInt i))"

fun kwarg :: "extcall \<Rightarrow> string \<Rightarrow> pyval option" where
  "kwarg (Method _ _ kws) k = map_of kws k"
| "kwarg _ _ = None"

definition edges :: "(string \<times> string \<times> string \<times> int \<times> reader) list" where
  "edges =
     [(''cliptextencode_6'', ''clip'', ''checkpointloadersimple_4'', 1, Resolved),
      (''cliptextencode_7'', ''clip'', ''checkpointloadersimple_4'', 1, Resolved),
      (''vaeencode_15'', ''pixels'', ''loadimage_14'', 0, Resolved),
      (''vaeencode_15'', ''vae'', ''vaeloader_26'', 0, Resolved),
      (''cliptextencode_21'', ''clip'', ''checkpointloadersimple_4'', 1, Resolved),
      (''cliptextencode_24'', ''clip'', ''checkpointloadersimple_4'', 1, Resolved),
      (''aio_preprocessor_44'', ''image'', ''loadimage_14'', 0, Resolved),
      (''controlnetapplyadvanced_25'', ''positive'', ''cliptextencode_21'', 0, Resolved),
      (''controlnetapplyadvanced_25'', ''negative'', ''cliptextencode_24'', 0, Resolved),
      (''controlnetapplyadvanced_25'', ''control_net'', ''controlnetloader_19'', 0, Resolved),
      (''controlnetapplyadvanced_25'', ''image'', ''aio_preprocessor_44'', 0, Resolved),
      (''aio_preprocessor_43'', ''image'', ''loadimage_14'', 0, Resolved),
      (''controlnetapplyadvanced_30'', ''positive'', ''controlnetapplyadvanced_25'', 0, Resolved),
      (''controlnetapplyadvanced_30'', ''negative'', ''controlnetapplyadvanced_25'', 1, Resolved),
      (''controlnetapplyadvanced_30'', ''control_net'', ''controlnetloader_29'', 0, Resolved),
      (''controlnetapplyadvanced_30'', ''image'', ''aio_preprocessor_43'', 0, Resolved),
      (''bnk_unsampler_13'', ''model'', ''checkpointloadersimple_4'', 0, Resolved),
      (''bnk_unsampler_13'', ''positive'', ''cliptextencode_6'', 0, Resolved),
      (''bnk_unsampler_13'', ''negative'', ''cliptextencode_7'', 0, Resolved),
      (''bnk_unsampler_13'', ''latent_image'', ''vaeencode_15'', 0, Resolved),
      (''ksampleradvanced_16'', ''model'', ''checkpointloadersimple_4'', 0, Resolved),
      (''ksampleradvanced_16'', ''positive'', ''controlnetapplyadvanced_30'', 0, Resolved),
      (''ksampleradvanced_16'', ''negative'', ''controlnetapplyadvanced_30'', 1, Resolved),
      (''ksampleradvanced_16'', ''latent_image'', ''bnk_unsampler_13'', 0, Resolved),
      (''vaedecode_8'', ''samples'', ''ksampleradvanced_16'', 0, Resolved),
      (''vaedecode_8'', ''vae'', ''vaeloader_26'', 0, Resolved),
      (''midas_depthmappreprocessor_50'', ''image'', ''loadimage_14'', 0, Resolved),
      (''finale'', ''images'', ''vaedecode_8'', 0, Subscripted)]"

text \<open>
  The run cache after a list of events: the variables assigned so far, each with the
  value of the latest call that returned into it. A call that raised assigns nothing.
\<close>

definition store :: "(string \<rightharpoonup> pyval) \<Rightarrow> event \<Rightarrow> (string \<rightharpoonup> pyval)" where
  "store m ev = (case (target ev, outcome ev) of (Some v, Inr x) \<Rightarrow> m(v \<mapsto> x) | _ \<Rightarrow> m)"

definition cache_of :: "event list \<Rightarrow> (string \<rightharpoonup> pyval)" where
  "cache_of evs = foldl store Map.empty evs"

text \<open>
  An input of a call is ready in a cache when the producer of its edge has an entry
  there and the keyword argument is that entry read at the index of the edge. A trace is
  sound when the inputs of every event were ready in the cache of the events before it.
\<close>

definition input_ready ::
  "(string \<rightharpoonup> pyval) \<Rightarrow> string option \<Rightarrow> extcall
    \<Rightarrow> string \<times> string \<times> string \<times> int \<times> reader \<Rightarrow> bool" where
  "input_ready cache tgt c = (\<lambda>(b, k, a, i, rd).
     tgt = Some b \<longrightarrow>
       (case cache a of
          None \<Rightarrow> False
        | Some obj \<Rightarrow>
            (case access rd obj i of Inl _ \<Rightarrow> False | Inr x \<Rightarrow> kwarg c k = Some x)))"

definition inputs_ready :: "(string \<rightharpoonup> pyval) \<Rightarrow> string option \<Rightarrow> extcall \<Rightarrow> bool" where
  "inputs_ready cache tgt c = list_all (input_ready cache tgt c) edges"

definition sound :: "event list \<Rightarrow> bool" where
  "sound evs \<longleftrightarrow>
     (\<forall>j < length evs. inputs_ready (cache_of (take j evs)) (target (evs ! j)) (call (evs ! j)))"

text \<open>
  A program keeps a trace sound from the point where the cache holds the bindings
  \<open>env\<close>, newest first.
\<close>

fun remember :: "string option \<Rightarrow> pyval \<Rightarrow> (string \<times> pyval) list \<Rightarrow> (string \<times> pyval) list" where
  "remember None x env = env"
| "remember (Some v) x env = (v, x) # env"

definition keeps :: "(string \<times> pyval) list \<Rightarrow> ('w, 'a) prog \<Rightarrow> bool" where
  "keeps env m \<longleftrightarrow>
     (\<forall>s. sound (trace s) \<and> cache_of (trace s) = map_of env \<longrightarrow> sound (trace (snd (m s))))"








text \<open>
  An environment never stores when it leaves an empty store empty. Two programs agree
  unshared when, started in a state whose store is empty, they do the same and leave the
  store empty.
\<close>

definition never_stores :: "('u \<times> store) ext \<Rightarrow> bool" where
  "never_stores ext \<longleftrightarrow> (\<forall>c u. snd (snd (ext c (u, Map.empty))) = Map.empty)"

definition agree_unshared :: "('u \<times> store, 'a) prog \<Rightarrow> ('u \<times> store, 'a) prog \<Rightarrow> bool" where
  "agree_unshared m1 m2 \<longleftrightarrow>
     (\<forall>s. snd (world s) = Map.empty \<longrightarrow>
        m1 s = m2 s \<and> snd (world (snd (m1 s))) = Map.empty)"


text \<open>
  The call of the MiDaS node is the one \<^verbatim>\<open>execute\<close> with the keywords \<^verbatim>\<open>a\<close>,
  \<^verbatim>\<open>bg_threshold\<close>, \<^verbatim>\<open>resolution\<close> and \<^verbatim>\<open>image\<close>. Two environments agree but for
  MiDaS when they answer every other call alike, in every state of the world. The saved
  images of a trace are the \<^verbatim>\<open>images\<close> arguments of its save calls.
\<close>

definition midas_keys :: "string list" where
  "midas_keys = [''a'', ''bg_threshold'', ''resolution'', ''image'']"

fun is_midas_call :: "extcall \<Rightarrow> bool" where
  "is_midas_call (Method _ m kws) = (m = ''execute'' \<and> map fst kws = midas_keys)"
| "is_midas_call _ = False"

definition agree_but_midas :: "'w ext \<Rightarrow> 'w ext \<Rightarrow> bool" where
  "agree_but_midas ext1 ext2 \<longleftrightarrow> (\<forall>c w. \<not> is_midas_call c \<longrightarrow> ext1 c w = ext2 c w)"

definition saved_images :: "event list \<Rightarrow> pyval option list" where
  "saved_images evs =
     map (\<lambda>ev. kwarg (call ev) ''images'') (filter (\<lambda>ev. op_name (call ev) = ''save_images'') evs)"

definition same_saved :: "('w, 'a) prog \<Rightarrow> ('w, 'a) prog \<Rightarrow> bool" where
  "same_saved m1 m2 \<longleftrightarrow>
     (\<forall>s r1 s1 r2 s2. m1 s = (Inr r1, s1) \<longrightarrow> m2 s = (Inr r2, s2) \<longrightarrow>
        saved_images (trace s1) = saved_images (trace s2))"

section \<open>Stub environments\<close>

text \<open>
  Environments to run the script on. The world counts the calls made. A constructor
  returns a fresh object; \<^verbatim>\<open>execute\<close> returns a dictionary with its outputs under
  \<^verbatim>\<open>"result"\<close>, as nodes with a user-interface part do; every other method returns a
  pair of fresh objects.
\<close>

definition stub_ext :: "nat ext" where
  "stub_ext c w =
     (case c of
        Method _ m _ \<Rightarrow>
          if m = ''execute''
          then (Inr (VDict [(KStr ''ui'', VDict []), (KStr ''result'', VTuple [VObj w])]), w + 1)
          else (Inr (VTuple [VObj w, VObj (w + 100)]), w + 1)
      | _ \<Rightarrow> (Inr (VObj w), w + 1))"

definition failing_ext :: "string \<Rightarrow> nat ext" where
  "failing_ext m c w =
     (if op_name c = m then (Inl (Raised ''RuntimeError''), w) else stub_ext c w)"

definition midas_variant_ext :: "nat ext" where
  "midas_variant_ext c w =
     (if is_midas_call c then (Inr (VTuple [VStr ''another depth map'']), w + 5)
      else stub_ext c w)"

definition midas_failing_ext :: "nat ext" where
  "midas_failing_ext c w =
     (if is_midas_call c then (Inl (Raised ''RuntimeError''), w) else stub_ext c w)"




text \<open>
  A small file system: the working directory \<^verbatim>\<open>/srv/app/work\<close>, whose parent lists
  \<open>entry\<close>; \<^verbatim>\<open>/srv/app/ComfyUI\<close> is a directory when \<open>is_directory\<close>.
\<close>

definition demo_fs :: "string \<Rightarrow> bool \<Rightarrow> filesystem" where
  "demo_fs entry is_directory =
     \<lparr>getcwd = Inr ''/srv/app/work'',
      listdir = (\<lambda>p. if p = ''/srv/app/work'' then Inr [''workflow_api.py'']
                      else if p = ''/srv/app'' then Inr [''work'', entry]
                      else if p = ''/srv'' then Inr [''app'']
                      else if p = ''/'' then Inr [''srv'']
                      else Inl (Raised ''FileNotFoundError'')),
      isdir = (\<lambda>p. is_directory \<and> p = ''/srv/app/ComfyUI''),
      path_join = (\<lambda>a b. a @ ''/'' @ b),
      dirname = (\<lambda>p. if p = ''/srv/app/work'' then ''/srv/app''
                      else if p = ''/srv/app'' then ''/srv'' else ''/'')\<rparr>"

section \<open>Resolving an output of a node\<close>

text \<open>
  C1. On the list \<^verbatim>\<open>["a","b"]\<close> index 1 gives \<^verbatim>\<open>"b"\<close>; on the dictionary
  \<^verbatim>\<open>{"result": ["a","b"]}\<close> index 1 gives \<^verbatim>\<open>"b"\<close> through the key
  \<^verbatim>\<open>"result"\<close>; on \<^verbatim>\<open>{"x": 1}\<close> index 0 raises \<open>KeyError\<close>, a lookup error,
  and no default is returned.
\<close>

theorem get_value_at_index_shapes:
  "get_value_at_index (VList [VStr ''a'', VStr ''b'']) 1 = Inr (VStr ''b'')
   \<and> get_value_at_index (VDict [(KStr ''result'', VList [VStr ''a'', VStr ''b''])]) 1
       = Inr (VStr ''b'')
   \<and> get_value_at_index (VDict [(KStr ''x'', VInt 1)]) 0 = Inl KeyError"
  by (simp add: get_value_at_index_def seq_getitem_def)

text \<open>
  C2, as the claim states it, fails: a list of length 1 read at index 1 raises
  \<open>IndexError\<close> at once. Had the key \<^verbatim>\<open>"result"\<close> been tried next, the
  subscript of a list by a string would have raised \<open>TypeError\<close> instead.
\<close>

theorem fallback_not_tried_on_short_sequence:
  "py_getitem (VList [VStr ''a'']) (KInt 1) = Inl IndexError
   \<and> get_value_at_index (VList [VStr ''a'']) 1 = Inl IndexError
   \<and> get_value_at_index (VList [VStr ''a'']) 1
       \<noteq> (case py_getitem (VList [VStr ''a'']) (KStr ''result'') of
            Inl e \<Rightarrow> Inl e
          | Inr sub \<Rightarrow> py_getitem sub (KInt 1))"
  by (simp add: get_value_at_index_def seq_getitem_def)

text \<open>
  C2, amended. The positional subscript comes first and its value is returned when
  there is one. The key \<^verbatim>\<open>"result"\<close> is read, and the value under it subscripted with
  the same index, exactly when the positional subscript raised \<open>KeyError\<close>: for a
  dictionary without the key \<open>index\<close>. Every other exception of the positional
  subscript leaves the function unchanged and the key is not tried: a list or tuple
  whose length is at most the index raises \<open>IndexError\<close>.
\<close>

theorem get_value_at_index_fallback:
  "(py_getitem obj (KInt i) = Inr v \<longrightarrow> get_value_at_index obj i = Inr v)
   \<and> (py_getitem obj (KInt i) = Inl KeyError \<longrightarrow>
        get_value_at_index obj i =
          (case py_getitem obj (KStr ''result'') of
             Inl e' \<Rightarrow> Inl e'
           | Inr sub \<Rightarrow> py_getitem sub (KInt i)))
   \<and> (py_getitem obj (KInt i) = Inl e \<and> e \<noteq> KeyError \<longrightarrow> get_value_at_index obj i = Inl e)
   \<and> (map_of kvs (KInt i) = None \<longrightarrow>
        get_value_at_index (VDict kvs) i =
          (case map_of kvs (KStr ''result'') of
             None \<Rightarrow> Inl KeyError
           | Some sub \<Rightarrow> py_getitem sub (KInt i)))
   \<and> (0 \<le> i \<and> int (length xs) \<le> i \<longrightarrow>
        get_value_at_index (VList xs) i = Inl IndexError
        \<and> get_value_at_index (VTuple xs) i = Inl IndexError)"
  by (auto simp: get_value_at_index_def seq_getitem_def split: option.splits)

theorem get_value_at_index_fallback_witness:
  "py_getitem (VTuple [VObj 0, VObj 1]) (KInt 1) = Inr (VObj 1)
   \<and> get_value_at_index (VTuple [VObj 0, VObj 1]) 1 = Inr (VObj 1)
   \<and> py_getitem (VDict [(KStr ''result'', VTuple [VObj 0, VObj 1])]) (KInt 1) = Inl KeyError
   \<and> map_of [(KStr ''result'', VTuple [VObj 0, VObj 1])] (KInt 1) = None
   \<and> get_value_at_index (VDict [(KStr ''result'', VTuple [VObj 0, VObj 1])]) 1 = Inr (VObj 1)
   \<and> py_getitem (VStr ''ab'') (KInt 2) = Inl IndexError \<and> IndexError \<noteq> KeyError
   \<and> get_value_at_index (VStr ''ab'') 2 = Inl IndexError
   \<and> py_getitem (VList [VObj 0, VObj 1]) (KInt (- 3)) = Inl IndexError
   \<and> get_value_at_index (VList [VObj 0, VObj 1]) (- 3) = Inl IndexError
   \<and> py_getitem (VObj 7) (KInt 0) = Inl TypeError \<and> TypeError \<noteq> KeyError
   \<and> get_value_at_index (VObj 7) 0 = Inl TypeError
   \<and> (0::int) \<le> 2 \<and> int (length [VObj 0, VObj 1]) \<le> 2
   \<and> get_value_at_index (VList [VObj 0, VObj 1]) 2 = Inl IndexError
   \<and> get_value_at_index (VTuple [VObj 0, VObj 1]) 2 = Inl IndexError"
  using get_value_at_index_fallback
    [where obj = "VTuple [VObj 0, VObj 1]" and i = 1 and v = "VObj 1"]
    get_value_at_index_fallback
    [where obj = "VDict [(KStr ''result'', VTuple [VObj 0, VObj 1])]" and i = 1
       and kvs = "[(KStr ''result'', VTuple [VObj 0, VObj 1])]"]
    get_value_at_index_fallback [where obj = "VStr ''ab''" and i = 2 and e = IndexError]
    get_value_at_index_fallback
    [where obj = "VList [VObj 0, VObj 1]" and i = "- 3" and e = IndexError]
    get_value_at_index_fallback [where obj = "VObj 7" and i = 0 and e = TypeError]
    get_value_at_index_fallback [where i = 2 and xs = "[VObj 0, VObj 1]"]
  by (simp add: seq_getitem_def)

section \<open>The bootstrap and the module search path\<close>

text \<open>
  C9. \<^verbatim>\<open>add_comfyui_directory_to_sys_path\<close> leaves \<^verbatim>\<open>sys.path\<close> as it was when
  \<^verbatim>\<open>find_path("ComfyUI")\<close> returns \<open>None\<close>, and when it returns a path that is not a
  directory; when it returns a directory, that path is appended and the entries already
  there stay, in their order.
\<close>

theorem sys_path_frame:
  "(find_path fs ''ComfyUI'' None = Some (Inr None)
      \<longrightarrow> add_comfyui_directory_to_sys_path fs sys_path = Some (Inr sys_path))
   \<and> (find_path fs ''ComfyUI'' None = Some (Inr (Some p)) \<and> \<not> isdir fs p
      \<longrightarrow> add_comfyui_directory_to_sys_path fs sys_path = Some (Inr sys_path))
   \<and> (find_path fs ''ComfyUI'' None = Some (Inr (Some p)) \<and> isdir fs p
      \<longrightarrow> add_comfyui_directory_to_sys_path fs sys_path = Some (Inr (sys_path @ [p])))"
  by (simp add: add_comfyui_directory_to_sys_path_def)

lemma demo_found:
  "find_path (demo_fs ''ComfyUI'' d) ''ComfyUI'' None = Some (Inr (Some ''/srv/app/ComfyUI''))"
  by (simp add: find_path.simps demo_fs_def)

lemma demo_not_found: "find_path (demo_fs ''models'' d) ''ComfyUI'' None = Some (Inr None)"
  by (simp add: find_path.simps demo_fs_def)

theorem sys_path_frame_witness:
  "find_path (demo_fs ''models'' True) ''ComfyUI'' None = Some (Inr None)
   \<and> add_comfyui_directory_to_sys_path (demo_fs ''models'' True) [''/usr/lib/python3'']
       = Some (Inr [''/usr/lib/python3''])
   \<and> find_path (demo_fs ''ComfyUI'' False) ''ComfyUI'' None = Some (Inr (Some ''/srv/app/ComfyUI''))
   \<and> \<not> isdir (demo_fs ''ComfyUI'' False) ''/srv/app/ComfyUI''
   \<and> add_comfyui_directory_to_sys_path (demo_fs ''ComfyUI'' False) [''/usr/lib/python3'']
       = Some (Inr [''/usr/lib/python3''])
   \<and> find_path (demo_fs ''ComfyUI'' True) ''ComfyUI'' None = Some (Inr (Some ''/srv/app/ComfyUI''))
   \<and> isdir (demo_fs ''ComfyUI'' True) ''/srv/app/ComfyUI''
   \<and> add_comfyui_directory_to_sys_path (demo_fs ''ComfyUI'' True) [''/usr/lib/python3'']
       = Some (Inr [''/usr/lib/python3'', ''/srv/app/ComfyUI''])"
proof -
  have d1: "\<not> isdir (demo_fs ''ComfyUI'' False) ''/srv/app/ComfyUI''"
    and d2: "isdir (demo_fs ''ComfyUI'' True) ''/srv/app/ComfyUI''"
    by (simp_all add: demo_fs_def)
  show ?thesis
    using sys_path_frame[where fs = "demo_fs ''models'' True" and p = "''/srv/app/ComfyUI''"
        and sys_path = "[''/usr/lib/python3'']"]
      sys_path_frame[where fs = "demo_fs ''ComfyUI'' False" and p = "''/srv/app/ComfyUI''"
        and sys_path = "[''/usr/lib/python3'']"]
      sys_path_frame[where fs = "demo_fs ''ComfyUI'' True" and p = "''/srv/app/ComfyUI''"
        and sys_path = "[''/usr/lib/python3'']"]
      demo_found demo_not_found d1 d2
    by simp
qed

section \<open>Running programs\<close>

lemma bind_apply:
  "bind m f s = (case m s of (Inl e, s') \<Rightarrow> (Inl e, s') | (Inr x, s') \<Rightarrow> f x s')"
  by (simp add: bind_def)

lemma invoke_apply:
  "invoke ext tgt c s =
     (case ext c (world s) of
        (r, w') \<Rightarrow>
          (r, \<lparr>world = w', trace = trace s @ [\<lparr>target = tgt, call = c, outcome = r\<rparr>]\<rparr>))"
  by (simp add: invoke_def)

lemma call_method_apply:
  "call_method ext tgt self name kwargs s =
     (case eval_kwargs kwargs of
        Inl e \<Rightarrow> (Inl e, s)
      | Inr kws \<Rightarrow> invoke ext tgt (Method self name kws) s)"
  by (simp add: call_method_def)

lemma return_apply: "return x s = (Inr x, s)"
  by (simp add: return_def)

lemma prog_bind_assoc: "bind (bind m f) g = bind m (\<lambda>x. bind (f x) g)"
  by (auto simp: bind_def fun_eq_iff split: prod.splits sum.splits)

lemma bind_return: "bind (return x) f = f x"
  by (simp add: bind_def return_def)

lemma for_in_range_1: "for_in (py_range 1) body = bind (body 0) (\<lambda>_. return ())"
  by (simp add: py_range_def)

lemma eval_kwargs_Cons_Inr:
  "eval_kwargs ((k, a) # rest) = Inr kws \<longleftrightarrow>
     (\<exists>v kws'. a = Inr v \<and> eval_kwargs rest = Inr kws' \<and> kws = (k, v) # kws')"
  by (auto split: sum.splits)

lemma eval_kwargs_Nil_Inr: "eval_kwargs [] = Inr kws \<longleftrightarrow> kws = []"
  by auto

lemma eval_kwargs_keys: "eval_kwargs kwargs = Inr kws \<Longrightarrow> map fst kws = map fst kwargs"
proof (induction kwargs arbitrary: kws)
  case Nil
  then show ?case by simp
next
  case (Cons ka rest)
  then show ?case by (cases ka) (auto split: sum.splits)
qed

lemma call_method_failed_kwargs:
  "eval_kwargs kwargs = Inl e \<Longrightarrow>
   bind (call_method ext tgt self name kwargs) f = (\<lambda>s. (Inl e, s))"
  by (simp add: bind_def call_method_def fun_eq_iff)

lemma call_method_invoke:
  "eval_kwargs kwargs = Inr kws \<Longrightarrow>
   call_method ext tgt self name kwargs = invoke ext tgt (Method self name kws)"
  by (simp add: call_method_def fun_eq_iff)

section \<open>The order of the invocations\<close>

lemma follows_return: "follows (return x) []"
  by (simp add: follows_def return_def shape_def)

lemma follows_invoke: "follows (invoke ext tgt c) [(tgt, op_name c)]"
  by (auto simp: follows_def invoke_def shape_def step_of_def succeeded_def
      split: prod.splits sum.splits)

lemma follows_call_method: "follows (call_method ext tgt self name kwargs) [(tgt, name)]"
  by (auto simp: follows_def call_method_def invoke_def shape_def step_of_def succeeded_def
      split: prod.splits sum.splits)

lemma shape_append:
  assumes "shape xs (Inr x) evs1" "shape ys r evs2"
  shows "shape (xs @ ys) r (evs1 @ evs2)"
  using assms
  by (cases r) (auto simp: shape_def butlast_append list_all_iff dest: in_set_butlastD)

lemma shape_fail_left: "shape xs (Inl e) evs \<Longrightarrow> shape (xs @ ys) (Inl e) evs"
  by (auto simp: shape_def prefix_def)

lemma follows_bind:
  assumes m: "follows m xs" and f: "\<And>x. follows (f x) ys"
  shows "follows (bind m f) (xs @ ys)"
  unfolding follows_def
proof
  fix s
  obtain r s1 where ms: "m s = (r, s1)" by (cases "m s")
  from m obtain evs1 where e1: "trace s1 = trace s @ evs1" "shape xs r evs1"
    using ms unfolding follows_def by (metis fst_conv snd_conv)
  show "\<exists>evs. trace (snd (bind m f s)) = trace s @ evs \<and> shape (xs @ ys) (fst (bind m f s)) evs"
  proof (cases r)
    case (Inl e)
    then show ?thesis using ms e1 by (auto simp: bind_def intro: shape_fail_left)
  next
    case (Inr x)
    from f[of x] obtain evs2 where
      e2: "trace (snd (f x s1)) = trace s1 @ evs2" "shape ys (fst (f x s1)) evs2"
      unfolding follows_def by blast
    have "trace (snd (bind m f s)) = trace s @ (evs1 @ evs2)"
      using ms Inr e1 e2 by (simp add: bind_def)
    moreover have "shape (xs @ ys) (fst (bind m f s)) (evs1 @ evs2)"
      using ms Inr e1 e2 by (simp add: bind_def shape_append)
    ultimately show ?thesis by blast
  qed
qed

lemma follows_bind_function:
  "(\<And>x. follows (f x) ys) \<Longrightarrow>
   follows (bind (invoke ext tgt (Function n args)) f) ((tgt, n) # ys)"
  using follows_bind[OF follows_invoke, of f ys ext tgt "Function n args"] by simp

lemma follows_bind_registry:
  "(\<And>x. follows (f x) ys) \<Longrightarrow> follows (bind (invoke ext tgt (Registry k)) f) ((tgt, k) # ys)"
  using follows_bind[OF follows_invoke, of f ys ext tgt "Registry k"] by simp

lemma follows_bind_call_method:
  "(\<And>x. follows (f x) ys) \<Longrightarrow>
   follows (bind (call_method ext tgt self name kwargs) f) ((tgt, name) # ys)"
  using follows_bind[OF follows_call_method, of f ys ext tgt self name kwargs] by simp

lemma main_follows: "follows (main ext noise_seed) main_steps"
  unfolding main_def import_custom_nodes_def for_in_range_1 prog_bind_assoc bind_return
    main_steps_def
  by (intro follows_bind_function follows_bind_registry follows_bind_call_method follows_return)

lemma run_shape:
  assumes "run_main ext noise_seed w = (r, s')"
  shows "shape main_steps r (trace s')"
proof -
  from main_follows[of ext noise_seed] obtain evs where
    "trace (snd (main ext noise_seed \<lparr>world = w, trace = []\<rparr>))
       = trace \<lparr>world = w, trace = []\<rparr> @ evs"
    "shape main_steps (fst (main ext noise_seed \<lparr>world = w, trace = []\<rparr>)) evs"
    unfolding follows_def by blast
  then show ?thesis using assms by (simp add: run_main_def)
qed

lemma run_steps_prefix:
  assumes "run_main ext noise_seed w = (r, s')"
  shows "prefix (map step_of (trace s')) main_steps"
  using run_shape[OF assms] by (simp add: shape_def)

lemma complete_run_steps:
  assumes "run_main ext noise_seed w = (Inr r, s')"
  shows "map step_of (trace s') = main_steps"
  using run_shape[OF assms] by (simp add: shape_def)

lemma distinct_main_steps: "distinct main_steps"
  unfolding main_steps_def by code_simp

lemma length_main_steps: "length main_steps = 39"
  by (simp add: main_steps_def)



lemma step_at:
  assumes "prefix (map step_of evs) steps" "p < length evs"
  shows "p < length steps \<and> step_of (evs ! p) = steps ! p"
proof -
  from assms(1) obtain zs where zs: "steps = map step_of evs @ zs" by (auto simp: prefix_def)
  then show ?thesis using assms(2) by (simp add: nth_append)
qed

lemma complete_run_step_at:
  assumes run: "run_main ext noise_seed w = (Inr r, s')" and p: "p < 39"
  shows "length (trace s') = 39 \<and> step_of (trace s' ! p) = main_steps ! p"
proof -
  have steps: "map step_of (trace s') = main_steps" using run by (rule complete_run_steps)
  then have len: "length (trace s') = 39" using length_main_steps by (metis length_map)
  have "prefix (map step_of (trace s')) main_steps" using steps by simp
  from step_at[OF this, of p] show ?thesis using len p by simp
qed

lemma failed_event_is_last:
  assumes "shape steps r evs" "ev \<in> set evs" "outcome ev = Inl e"
  shows "r = Inl e \<and> evs \<noteq> [] \<and> last evs = ev \<and> list_all succeeded (butlast evs)"
proof -
  have ne: "evs \<noteq> []" using assms(2) by auto
  have ns: "\<not> succeeded ev" using assms(3) by (simp add: succeeded_def)
  have bl: "list_all succeeded (butlast evs)" using assms(1) by (simp add: shape_def)
  then have nb: "ev \<notin> set (butlast evs)" using ns by (auto simp: list_all_iff)
  have "set evs = set (butlast evs @ [last evs])" using ne by simp
  then have l: "last evs = ev" using nb assms(2) by auto
  have "r = Inl e"
  proof (cases r)
    case (Inl e')
    then have "list_all (\<lambda>ev. succeeded ev \<or> outcome ev = Inl e') evs"
      using assms(1) by (simp add: shape_def)
    then have "outcome ev = Inl e'" using assms(2) ns by (auto simp: list_all_iff)
    then show ?thesis using Inl assms(3) by simp
  next
    case (Inr x)
    then have "list_all succeeded evs" using assms(1) by (simp add: shape_def)
    then show ?thesis using assms(2) ns by (auto simp: list_all_iff)
  qed
  then show ?thesis using ne l bl by simp
qed

lemma prefix_last_index:
  assumes "prefix xs ys" "distinct ys" "xs \<noteq> []" "last xs = ys ! k" "k < length ys"
  shows "xs = take (Suc k) ys"
proof -
  have xs: "xs = take (length xs) ys" using assms(1) by (auto simp: prefix_def)
  have len: "length xs \<le> length ys" using assms(1) by (simp add: prefix_length_le)
  have pos: "0 < length xs" using assms(3) by simp
  have "last xs = xs ! (length xs - 1)" using assms(3) by (simp add: last_conv_nth)
  also have "\<dots> = take (length xs) ys ! (length xs - 1)" using xs by simp
  also have "\<dots> = ys ! (length xs - 1)" using pos by simp
  finally have "ys ! (length xs - 1) = ys ! k" using assms(4) by simp
  moreover have "length xs - 1 < length ys" using len pos by arith
  ultimately have "length xs - 1 = k"
    using assms(2,5) by (simp add: nth_eq_iff_index_eq)
  then have "length xs = Suc k" using pos by arith
  then show ?thesis using xs by simp
qed

lemma failed_step_cuts_run:
  assumes run: "run_main ext noise_seed w = (r, s')"
    and ev: "ev \<in> set (trace s')" "outcome ev = Inl e"
    and k: "k < 39" "step_of ev = main_steps ! k"
  shows "r = Inl e \<and> last (trace s') = ev
     \<and> map step_of (trace s') = take (Suc k) main_steps
     \<and> list_all succeeded (butlast (trace s'))"
proof -
  have sh: "shape main_steps r (trace s')" using run by (rule run_shape)
  from failed_event_is_last[OF sh ev] have
    f: "r = Inl e" "trace s' \<noteq> []" "last (trace s') = ev" "list_all succeeded (butlast (trace s'))"
    by simp_all
  have "last (map step_of (trace s')) = main_steps ! k"
    using f(2,3) k(2) by (simp add: last_map)
  then have "map step_of (trace s') = take (Suc k) main_steps"
    using prefix_last_index[of "map step_of (trace s')" main_steps k]
      run_steps_prefix[OF run] distinct_main_steps f(2) length_main_steps k(1)
    by simp
  then show ?thesis using f by simp
qed

section \<open>The run cache and the inputs of a call\<close>

lemma cache_of_snoc: "cache_of (evs @ [ev]) = store (cache_of evs) ev"
  by (simp add: cache_of_def)

lemma store_same: "target ev = Some a \<Longrightarrow> outcome ev = Inr x \<Longrightarrow> store m ev a = Some x"
  by (simp add: store_def)

lemma store_other:
  "\<not> (target ev = Some a \<and> (\<exists>x. outcome ev = Inr x)) \<Longrightarrow> store m ev a = m a"
  by (cases "target ev"; cases "outcome ev") (auto simp: store_def)

lemma cache_of_SomeD:
  "cache_of evs a = Some obj \<Longrightarrow>
   \<exists>p < length evs. target (evs ! p) = Some a \<and> outcome (evs ! p) = Inr obj"
proof (induction evs rule: rev_induct)
  case Nil
  then show ?case by (simp add: cache_of_def)
next
  case (snoc ev evs)
  show ?case
  proof (cases "target ev = Some a \<and> (\<exists>x. outcome ev = Inr x)")
    case True
    then have "outcome ev = Inr obj"
      using snoc.prems by (auto simp: cache_of_snoc store_same)
    then have "target ((evs @ [ev]) ! length evs) = Some a \<and>
        outcome ((evs @ [ev]) ! length evs) = Inr obj"
      using True by simp
    then show ?thesis
      by (metis length_append_singleton lessI)
  next
    case False
    then have "cache_of evs a = Some obj"
      using snoc.prems by (simp add: cache_of_snoc store_other)
    from snoc.IH[OF this] obtain p where
      p: "p < length evs" "target (evs ! p) = Some a" "outcome (evs ! p) = Inr obj"
      by blast
    then have "p < length (evs @ [ev])" "target ((evs @ [ev]) ! p) = Some a"
      "outcome ((evs @ [ev]) ! p) = Inr obj"
      by (simp_all add: nth_append)
    then show ?thesis by blast
  qed
qed


lemma sound_snoc:
  "sound evs \<Longrightarrow> inputs_ready (cache_of evs) (target ev) (call ev) \<Longrightarrow> sound (evs @ [ev])"
  by (auto simp: sound_def nth_append less_Suc_eq)

lemma keeps_return: "keeps env (return x)"
  by (simp add: keeps_def return_def)

lemma keeps_bind_invoke:
  fixes ext :: "'w ext"
  assumes ready: "inputs_ready (map_of env) tgt c"
    and rest: "\<And>x. keeps (remember tgt x env) (f x)"
  shows "keeps env (bind (invoke ext tgt c) f)"
  unfolding keeps_def
proof (intro allI impI)
  fix s :: "'w run"
  assume pre: "sound (trace s) \<and> cache_of (trace s) = map_of env"
  obtain r w' where call: "ext c (world s) = (r, w')" by (cases "ext c (world s)")
  let ?ev = "\<lparr>target = tgt, call = c, outcome = r\<rparr>"
  let ?s1 = "\<lparr>world = w', trace = trace s @ [?ev]\<rparr>"
  have s1: "sound (trace ?s1)" using pre ready by (simp add: sound_snoc)
  show "sound (trace (snd (bind (invoke ext tgt c) f s)))"
  proof (cases r)
    case (Inl e)
    then show ?thesis using call s1 by (simp add: bind_def invoke_def)
  next
    case (Inr x)
    have "cache_of (trace ?s1) = map_of (remember tgt x env)"
      using pre Inr by (cases tgt) (simp_all add: cache_of_snoc store_def)
    then have "sound (trace (snd (f x ?s1)))"
      using rest[of x] s1 unfolding keeps_def by blast
    then show ?thesis using call Inr by (simp add: bind_def invoke_def)
  qed
qed

lemma keeps_bind_call_method:
  assumes ready: "\<And>kws. eval_kwargs kwargs = Inr kws \<Longrightarrow>
      inputs_ready (map_of env) tgt (Method self name kws)"
    and rest: "\<And>x. keeps (remember tgt x env) (f x)"
  shows "keeps env (bind (call_method ext tgt self name kwargs) f)"
proof (cases "eval_kwargs kwargs")
  case (Inl e)
  then show ?thesis by (simp add: call_method_failed_kwargs keeps_def)
next
  case (Inr kws)
  then show ?thesis
    using keeps_bind_invoke[OF ready[OF Inr] rest] by (simp add: call_method_invoke)
qed

lemma main_keeps: "keeps [] (main ext noise_seed)"
  unfolding main_def import_custom_nodes_def for_in_range_1 prog_bind_assoc bind_return
  apply (rule keeps_bind_invoke keeps_bind_call_method keeps_return,
         (clarsimp simp: inputs_ready_def input_ready_def edges_def access_def
            eval_kwargs_Cons_Inr eval_kwargs_Nil_Inr simp del: eval_kwargs.simps)[1])+
  apply (rule keeps_return)
  done

lemma main_sound:
  assumes "run_main ext noise_seed w = (r, s')"
  shows "sound (trace s')"
proof -
  have "sound (trace \<lparr>world = w, trace = []\<rparr>)" by (simp add: sound_def)
  moreover have "cache_of (trace \<lparr>world = w, trace = []\<rparr>) = map_of []"
    by (simp add: cache_of_def)
  ultimately have "sound (trace (snd (main ext noise_seed \<lparr>world = w, trace = []\<rparr>)))"
    using main_keeps[of ext noise_seed] unfolding keeps_def by blast
  then show ?thesis using assms by (simp add: run_main_def)
qed

lemma consumer_after_producer:
  assumes run: "run_main ext noise_seed w = (r, s')"
    and j: "j < length (trace s')"
    and e: "(b, k, a, i, rd) \<in> set edges"
    and b: "target (trace s' ! j) = Some b"
  shows "\<exists>p obj x. p < j \<and> target (trace s' ! p) = Some a \<and> outcome (trace s' ! p) = Inr obj
      \<and> cache_of (take j (trace s')) a = Some obj
      \<and> access rd obj i = Inr x \<and> kwarg (call (trace s' ! j)) k = Some x"
proof -
  have "inputs_ready (cache_of (take j (trace s'))) (target (trace s' ! j)) (call (trace s' ! j))"
    using main_sound[OF run] j by (simp add: sound_def)
  then have "input_ready (cache_of (take j (trace s'))) (Some b) (call (trace s' ! j))
      (b, k, a, i, rd)"
    using e b by (simp add: inputs_ready_def list_all_iff)
  then obtain obj x where ox: "cache_of (take j (trace s')) a = Some obj"
    "access rd obj i = Inr x" "kwarg (call (trace s' ! j)) k = Some x"
    by (auto simp: input_ready_def split: option.splits sum.splits)
  from cache_of_SomeD[OF ox(1)] obtain p where
    p: "p < length (take j (trace s'))" "target (take j (trace s') ! p) = Some a"
      "outcome (take j (trace s') ! p) = Inr obj"
    by blast
  then have "p < j" "target (trace s' ! p) = Some a" "outcome (trace s' ! p) = Inr obj"
    by simp_all
  then show ?thesis using ox by blast
qed

lemma event_position:
  assumes "prefix (map step_of evs) steps" "p < length evs" "target (evs ! p) = Some a"
  shows "p \<in> set (map fst (filter (\<lambda>(q, st). fst st = Some a) (enumerate 0 steps)))"
proof -
  from step_at[OF assms(1,2)] have s: "p < length steps" "step_of (evs ! p) = steps ! p"
    by simp_all
  then have "fst (steps ! p) = Some a" using assms(3) by (metis fst_conv step_of_def)
  moreover have "(p, steps ! p) \<in> set (enumerate 0 steps)"
    using s(1) by (simp add: in_set_enumerate_eq)
  ultimately have "(p, steps ! p) \<in> set (filter (\<lambda>(q, st). fst st = Some a) (enumerate 0 steps))"
    by simp
  then show ?thesis by force
qed

lemma only_position:
  assumes run: "run_main ext noise_seed w = (r, s')"
    and pos: "map fst (filter (\<lambda>(q, st). fst st = Some a) (enumerate 0 main_steps)) = [n]"
    and q: "q < length (trace s')" "target (trace s' ! q) = Some a"
  shows "q = n"
  using event_position[OF run_steps_prefix[OF run] q] pos by simp



lemma position_decode:
  "map fst (filter (\<lambda>(q, st). fst st = Some ''vaedecode_8'') (enumerate 0 main_steps)) = [35]"
  unfolding main_steps_def by code_simp


lemma save_input_of_complete_run:
  assumes run: "run_main ext noise_seed w = (Inr r, s')"
  shows "\<exists>decoded images. outcome (trace s' ! 35) = Inr decoded
      \<and> py_getitem decoded (KInt 0) = Inr images
      \<and> kwarg (call (trace s' ! 38)) ''images'' = Some images"
proof -
  let ?tr = "trace s'"
  have len: "length ?tr = 39" using complete_run_step_at[OF run, of 0] by simp
  have s38: "step_of (?tr ! 38) = (Some ''finale'', ''save_images'')"
    using complete_run_step_at[OF run, of 38] by (simp add: main_steps_def)
  have j: "38 < length ?tr" using len by simp
  have e: "(''finale'', ''images'', ''vaedecode_8'', 0, Subscripted) \<in> set edges"
    by (simp add: edges_def)
  have t: "target (?tr ! 38) = Some ''finale''" using s38 by (simp add: step_of_def)
  from consumer_after_producer[OF run j e t] obtain p obj x where
    p: "p < 38" "target (?tr ! p) = Some ''vaedecode_8''" "outcome (?tr ! p) = Inr obj"
      "access Subscripted obj 0 = Inr x" "kwarg (call (?tr ! 38)) ''images'' = Some x"
    by blast
  have "p < length ?tr" using p(1) len by simp
  then have "p = 35" using only_position[OF run position_decode _ p(2)] by simp
  then have "outcome (?tr ! 35) = Inr obj \<and> py_getitem obj (KInt 0) = Inr x
      \<and> kwarg (call (?tr ! 38)) ''images'' = Some x"
    using p by (simp add: access_def)
  then show ?thesis by blast
qed

section \<open>Two runs side by side\<close>

lemma same_saved_bind_invoke:
  fixes ext1 :: "'w ext"
  assumes ag: "agree_but_midas ext1 ext2" and c: "\<not> is_midas_call c"
    and rest: "\<And>x. same_saved (f1 x) (f2 x)"
  shows "same_saved (bind (invoke ext1 tgt c) f1) (bind (invoke ext2 tgt c) f2)"
  unfolding same_saved_def
proof (intro allI impI)
  fix s :: "'w run" and r1 s1 r2 s2
  assume r1: "bind (invoke ext1 tgt c) f1 s = (Inr r1, s1)"
    and r2: "bind (invoke ext2 tgt c) f2 s = (Inr r2, s2)"
  have eq: "ext1 c (world s) = ext2 c (world s)" using ag c by (simp add: agree_but_midas_def)
  obtain r w' where r: "ext2 c (world s) = (r, w')" by (cases "ext2 c (world s)")
  show "saved_images (trace s1) = saved_images (trace s2)"
  proof (cases r)
    case (Inl e)
    then show ?thesis using r r2 by (simp add: bind_def invoke_def)
  next
    case (Inr x)
    let ?s' = "\<lparr>world = w', trace = trace s @ [\<lparr>target = tgt, call = c, outcome = Inr x\<rparr>]\<rparr>"
    have "f1 x ?s' = (Inr r1, s1)" using r1 eq r Inr by (simp add: bind_def invoke_def)
    moreover have "f2 x ?s' = (Inr r2, s2)" using r2 r Inr by (simp add: bind_def invoke_def)
    ultimately show ?thesis using rest[of x] unfolding same_saved_def by blast
  qed
qed

lemma same_saved_bind_call_method:
  assumes ag: "agree_but_midas ext1 ext2"
    and c: "\<not> (name = ''execute'' \<and> map fst kwargs = midas_keys)"
    and rest: "\<And>x. same_saved (f1 x) (f2 x)"
  shows "same_saved (bind (call_method ext1 tgt self name kwargs) f1)
           (bind (call_method ext2 tgt self name kwargs) f2)"
proof (cases "eval_kwargs kwargs")
  case (Inl e)
  then show ?thesis by (simp add: same_saved_def call_method_failed_kwargs)
next
  case (Inr kws)
  then have m: "\<not> is_midas_call (Method self name kws)"
    using c eval_kwargs_keys[OF Inr] by simp
  show ?thesis
    using same_saved_bind_invoke[OF ag m rest] Inr by (simp add: call_method_invoke)
qed

lemma saved_images_snoc:
  "saved_images (evs @ [ev]) =
     saved_images evs @
       (if op_name (call ev) = ''save_images'' then [kwarg (call ev) ''images''] else [])"
  by (simp add: saved_images_def)

lemma saved_images_none:
  assumes "''save_images'' \<notin> set (map snd (map step_of evs))"
  shows "saved_images evs = []"
proof -
  have "op_name (call ev) \<noteq> ''save_images''" if "ev \<in> set evs" for ev
  proof
    assume "op_name (call ev) = ''save_images''"
    then have "snd (step_of ev) = ''save_images''" by (simp add: step_of_def)
    then have "''save_images'' \<in> (\<lambda>ev. snd (step_of ev)) ` set evs"
      using that by (metis imageI)
    then show False using assms by (simp add: image_image)
  qed
  then show ?thesis by (simp add: saved_images_def filter_empty_conv)
qed

text \<open>
  From the MiDaS call on the two runs may part; what the save receives was computed
  before.
\<close>

lemma same_saved_tail:
  "same_saved
     (bind (call_method ext1 t1 self1 ''execute'' kwargs1) (\<lambda>m.
      bind (invoke ext1 t2 (Function ''SaveImage'' [])) (\<lambda>saveImg.
      bind (call_method ext1 t3 saveImg ''save_images''
             [(''images'', images), (''filename_prefix'', fp)]) (\<lambda>finale.
      return ()))))
     (bind (call_method ext2 t1 self1 ''execute'' kwargs1) (\<lambda>m.
      bind (invoke ext2 t2 (Function ''SaveImage'' [])) (\<lambda>saveImg.
      bind (call_method ext2 t3 saveImg ''save_images''
             [(''images'', images), (''filename_prefix'', fp)]) (\<lambda>finale.
      return ()))))"
  unfolding same_saved_def
  by (auto simp: bind_apply call_method_apply invoke_apply return_apply saved_images_def
      split: sum.splits prod.splits)

lemma main_same_saved:
  assumes "agree_but_midas ext1 ext2"
  shows "same_saved (main ext1 noise_seed) (main ext2 noise_seed)"
  unfolding main_def import_custom_nodes_def for_in_range_1 prog_bind_assoc bind_return
  apply (rule same_saved_tail
      | (rule same_saved_bind_invoke[OF assms] same_saved_bind_call_method[OF assms],
         (simp add: midas_keys_def; fail)))+
  done

lemma complete_run_saved_images:
  assumes run: "run_main ext noise_seed w = (Inr r, s')"
  shows "saved_images (trace s') = [kwarg (call (trace s' ! 38)) ''images'']"
proof -
  let ?tr = "trace s'"
  have steps: "map step_of ?tr = main_steps" using run by (rule complete_run_steps)
  have len: "length ?tr = 39" using complete_run_step_at[OF run, of 0] by simp
  have s38: "step_of (?tr ! 38) = (Some ''finale'', ''save_images'')"
    using complete_run_step_at[OF run, of 38] by (simp add: main_steps_def)
  have "?tr = take (Suc 38) ?tr" using len by simp
  also have "\<dots> = take 38 ?tr @ [?tr ! 38]"
    by (rule take_Suc_conv_app_nth) (simp add: len)
  finally have split: "?tr = take 38 ?tr @ [?tr ! 38]" .
  have "map step_of (take 38 ?tr) = take 38 main_steps"
    using steps by (metis take_map)
  moreover have "''save_images'' \<notin> set (map snd (take 38 main_steps))"
    unfolding main_steps_def by code_simp
  ultimately have "saved_images (take 38 ?tr) = []"
    by (simp add: saved_images_none)
  moreover have "op_name (call (?tr ! 38)) = ''save_images''"
    using s38 by (simp add: step_of_def)
  ultimately have "saved_images (take 38 ?tr @ [?tr ! 38]) = [kwarg (call (?tr ! 38)) ''images'']"
    by (simp add: saved_images_snoc)
  then show ?thesis using split by simp
qed

section \<open>Runs over a store\<close>






































text \<open>
  With an environment that keeps no collection in the store, every value is what it is
  read as, and \<^verbatim>\<open>main\<close> over the store is \<^verbatim>\<open>main\<close> over values.
\<close>

lemma deref_empty: "deref Map.empty v = v"
  by (cases v) (simp_all add: deref_def)

lemma py_getitem_in_empty: "py_getitem_in Map.empty obj k = py_getitem obj k"
  by (simp add: py_getitem_in_def deref_empty)

lemma get_value_at_index_in_empty:
  "get_value_at_index_in Map.empty obj i = get_value_at_index obj i"
  by (simp add: get_value_at_index_in_def get_value_at_index_def py_getitem_in_empty
      split: sum.splits)

lemma agree_unshared_return: "agree_unshared (return x) (return x)"
  by (simp add: agree_unshared_def return_def)

lemma agree_unshared_bind_invoke:
  fixes ext :: "('u \<times> store) ext"
  assumes ns: "never_stores ext" and rest: "\<And>x. agree_unshared (f1 x) (f2 x)"
  shows "agree_unshared (bind (invoke ext tgt c) f1) (bind (invoke ext tgt c) f2)"
  unfolding agree_unshared_def
proof (intro allI impI)
  fix s :: "('u \<times> store) run"
  assume e: "snd (world s) = Map.empty"
  obtain u where w: "world s = (u, Map.empty)" using e by (cases "world s") auto
  obtain r u' h' where call: "ext c (u, Map.empty) = (r, u', h')"
    by (cases "ext c (u, Map.empty)") auto
  have "snd (snd (ext c (u, Map.empty))) = Map.empty"
    using ns by (simp add: never_stores_def)
  then have h': "h' = Map.empty" using call by simp
  let ?s1 = "\<lparr>world = (u', h'), trace = trace s @ [\<lparr>target = tgt, call = c, outcome = r\<rparr>]\<rparr>"
  have step: "invoke ext tgt c s = (r, ?s1)" using w call by (simp add: invoke_def)
  show "bind (invoke ext tgt c) f1 s = bind (invoke ext tgt c) f2 s
      \<and> snd (world (snd (bind (invoke ext tgt c) f1 s))) = Map.empty"
  proof (cases r)
    case (Inl e)
    then show ?thesis using step h' by (simp add: bind_def)
  next
    case (Inr x)
    have "snd (world ?s1) = Map.empty" using h' by simp
    then have eq: "f1 x ?s1 = f2 x ?s1" and em: "snd (world (snd (f1 x ?s1))) = Map.empty"
      using rest[of x] unfolding agree_unshared_def by blast+
    have b1: "bind (invoke ext tgt c) f1 s = f1 x ?s1" using step Inr by (simp add: bind_def)
    have b2: "bind (invoke ext tgt c) f2 s = f2 x ?s1" using step Inr by (simp add: bind_def)
    show ?thesis unfolding b1 b2 using eq em by blast
  qed
qed

lemma agree_unshared_bind_call_method:
  fixes ext :: "('u \<times> store) ext"
  assumes ns: "never_stores ext"
    and kw: "map (\<lambda>(k, a). (k, a Map.empty)) kwargs = kwargs'"
    and rest: "\<And>x. agree_unshared (f1 x) (f2 x)"
  shows "agree_unshared (bind (call_method_shared ext tgt self name kwargs) f1)
           (bind (call_method ext tgt self name kwargs') f2)"
  unfolding agree_unshared_def
proof (intro allI impI)
  fix s :: "('u \<times> store) run"
  assume e: "snd (world s) = Map.empty"
  have same: "call_method_shared ext tgt self name kwargs s = call_method ext tgt self name kwargs' s"
    using e kw by (simp add: call_method_shared_def)
  show "bind (call_method_shared ext tgt self name kwargs) f1 s
        = bind (call_method ext tgt self name kwargs') f2 s
      \<and> snd (world (snd (bind (call_method_shared ext tgt self name kwargs) f1 s))) = Map.empty"
  proof (cases "eval_kwargs kwargs'")
    case (Inl err)
    then show ?thesis using same e by (simp add: bind_def call_method_def)
  next
    case (Inr kws)
    have a: "agree_unshared (bind (invoke ext tgt (Method self name kws)) f1)
        (bind (invoke ext tgt (Method self name kws)) f2)"
      using ns rest by (rule agree_unshared_bind_invoke)
    have "call_method ext tgt self name kwargs' s = invoke ext tgt (Method self name kws) s"
      using Inr by (simp add: call_method_def)
    then have b1: "bind (call_method_shared ext tgt self name kwargs) f1 s
        = bind (invoke ext tgt (Method self name kws)) f1 s"
      and b2: "bind (call_method ext tgt self name kwargs') f2 s
        = bind (invoke ext tgt (Method self name kws)) f2 s"
      using same by (simp_all add: bind_def)
    have "bind (invoke ext tgt (Method self name kws)) f1 s
        = bind (invoke ext tgt (Method self name kws)) f2 s
      \<and> snd (world (snd (bind (invoke ext tgt (Method self name kws)) f1 s))) = Map.empty"
      using a e unfolding agree_unshared_def by blast
    then show ?thesis unfolding b1 b2 by blast
  qed
qed

lemma main_shared_unshared:
  assumes "never_stores ext"
  shows "agree_unshared (main_shared ext noise_seed) (main ext noise_seed)"
  unfolding main_shared_def main_def import_custom_nodes_def for_in_range_1 prog_bind_assoc
    bind_return
  apply (rule agree_unshared_return
      | (rule agree_unshared_bind_invoke[OF assms])
      | (rule agree_unshared_bind_call_method[OF assms],
         (simp add: fixed_def read_value_at_index_def read_item_def
            get_value_at_index_in_empty py_getitem_in_empty; fail)))+
  done

lemma run_main_shared_unshared:
  assumes "never_stores ext"
  shows "run_main_shared ext noise_seed u Map.empty = run_main ext noise_seed (u, Map.empty)"
  using main_shared_unshared[OF assms, of noise_seed]
  unfolding agree_unshared_def run_main_shared_def run_main_def by simp

section \<open>The stub runs\<close>

lemmas run_eval = run_main_def main_def import_custom_nodes_def py_range_def
  bind_apply invoke_apply call_method_apply return_apply
  get_value_at_index_def seq_getitem_def stub_ext_def

lemma stub_run_eval:
  "(case run_main stub_ext 1 0 of
      (r, s) \<Rightarrow> r = Inr ()
        \<and> outcome (trace s ! 35) = Inr (VTuple [VObj 35, VObj 135])
        \<and> outcome (trace s ! 36)
            = Inr (VDict [(KStr ''ui'', VDict []), (KStr ''result'', VTuple [VObj 36])]))"
  by (simp add: run_eval)

lemma stub_run_ok: "run_main stub_ext 1 0 = (Inr (), snd (run_main stub_ext 1 0))"
  using stub_run_eval by (simp add: case_prod_beta prod_eq_iff)

lemma failing_run_eval:
  "(case run_main (failing_ext ''sample'') 1 0 of
      (r, s) \<Rightarrow> trace s \<noteq> []
        \<and> step_of (last (trace s)) = (Some ''ksampleradvanced_16'', ''sample'')
        \<and> outcome (last (trace s)) = Inl (Raised ''RuntimeError''))"
  by (simp add: run_eval failing_ext_def step_of_def)

lemma midas_variant_run_eval:
  "(case run_main midas_variant_ext 1 0 of
      (r, s) \<Rightarrow> r = Inr ()
        \<and> outcome (trace s ! 36) = Inr (VTuple [VStr ''another depth map'']))"
  by (simp add: run_eval midas_variant_ext_def midas_keys_def)

lemma midas_failing_run_eval:
  "(case run_main midas_failing_ext 1 0 of
      (r, s) \<Rightarrow> trace s \<noteq> []
        \<and> step_of (last (trace s)) = (Some ''midas_depthmappreprocessor_50'', ''execute'')
        \<and> outcome (last (trace s)) = Inl (Raised ''RuntimeError''))"
  by (simp add: run_eval midas_failing_ext_def midas_keys_def step_of_def)

lemma agree_stub_midas_variant: "agree_but_midas stub_ext midas_variant_ext"
  by (simp add: agree_but_midas_def midas_variant_ext_def)






section \<open>The pipeline\<close>



text \<open>
  C4. In every run of \<^verbatim>\<open>main\<close>, returning or not, whenever the event at position
  \<open>j\<close> is the call of a consumer \<open>b\<close> and the script wires its keyword \<open>k\<close> to output
  \<open>i\<close> of a producer \<open>a\<close>, the producer was invoked at an earlier position and
  returned; its output collection is the entry of \<open>a\<close> in the cache of the events before
  \<open>j\<close>, and the argument passed is that collection read at \<open>i\<close>.
\<close>

theorem producer_computed_before_consumer:
  assumes "run_main ext noise_seed w = (r, s')"
    and "j < length (trace s')"
    and "(b, k, a, i, rd) \<in> set edges"
    and "target (trace s' ! j) = Some b"
  shows "\<exists>p obj x. p < j \<and> target (trace s' ! p) = Some a \<and> outcome (trace s' ! p) = Inr obj
      \<and> cache_of (take j (trace s')) a = Some obj
      \<and> access rd obj i = Inr x \<and> kwarg (call (trace s' ! j)) k = Some x"
  using assms by (rule consumer_after_producer)

theorem producer_computed_before_consumer_witness:
  "fst (run_main stub_ext 1 0) = Inr ()
   \<and> 8 < length (trace (snd (run_main stub_ext 1 0)))
   \<and> (''cliptextencode_6'', ''clip'', ''checkpointloadersimple_4'', 1, Resolved) \<in> set edges
   \<and> target (trace (snd (run_main stub_ext 1 0)) ! 8) = Some ''cliptextencode_6''
   \<and> (\<exists>p obj x. p < 8
        \<and> target (trace (snd (run_main stub_ext 1 0)) ! p) = Some ''checkpointloadersimple_4''
        \<and> outcome (trace (snd (run_main stub_ext 1 0)) ! p) = Inr obj
        \<and> cache_of (take 8 (trace (snd (run_main stub_ext 1 0)))) ''checkpointloadersimple_4''
            = Some obj
        \<and> access Resolved obj 1 = Inr x
        \<and> kwarg (call (trace (snd (run_main stub_ext 1 0)) ! 8)) ''clip'' = Some x)"
proof -
  let ?tr = "trace (snd (run_main stub_ext 1 0))"
  have ok: "fst (run_main stub_ext 1 0) = Inr ()" using stub_run_ok by (metis fst_conv)
  have j: "8 < length ?tr" using complete_run_step_at[OF stub_run_ok, of 0] by simp
  have t: "target (?tr ! 8) = Some ''cliptextencode_6''"
    using complete_run_step_at[OF stub_run_ok, of 8] by (simp add: main_steps_def step_of_def)
  have e: "(''cliptextencode_6'', ''clip'', ''checkpointloadersimple_4'', 1, Resolved) \<in> set edges"
    by (simp add: edges_def)
  show ?thesis
    using producer_computed_before_consumer[OF stub_run_ok j e t] ok j e t by blast
qed

text \<open>
  C5. If the call of the sampler node raises, the run ends with that exception: the
  sampler's event is the last of the trace, the decode and the save are not invoked, and
  the events before it all returned and stay in the trace with their outputs.
\<close>

theorem sampler_failure_aborts_run:
  assumes run: "run_main ext noise_seed w = (r, s')"
    and ev: "ev \<in> set (trace s')" "step_of ev = (Some ''ksampleradvanced_16'', ''sample'')"
      "outcome ev = Inl e"
  shows "r = Inl e \<and> last (trace s') = ev
     \<and> map step_of (trace s') = take 35 main_steps
     \<and> (Some ''vaedecode_8'', ''decode'') \<notin> set (map step_of (trace s'))
     \<and> (Some ''finale'', ''save_images'') \<notin> set (map step_of (trace s'))
     \<and> list_all succeeded (butlast (trace s'))"
proof -
  have k: "step_of ev = main_steps ! 34" using ev(2) by (simp add: main_steps_def)
  from failed_step_cuts_run[OF run ev(1,3) _ k] have
    f: "r = Inl e" "last (trace s') = ev" "map step_of (trace s') = take 35 main_steps"
      "list_all succeeded (butlast (trace s'))"
    by simp_all
  have "(Some ''vaedecode_8'', ''decode'') \<notin> set (take 35 main_steps)"
    "(Some ''finale'', ''save_images'') \<notin> set (take 35 main_steps)"
    unfolding main_steps_def by code_simp+
  then show ?thesis using f by simp
qed

theorem sampler_failure_aborts_run_witness:
  "last (trace (snd (run_main (failing_ext ''sample'') 1 0)))
     \<in> set (trace (snd (run_main (failing_ext ''sample'') 1 0)))
   \<and> step_of (last (trace (snd (run_main (failing_ext ''sample'') 1 0))))
       = (Some ''ksampleradvanced_16'', ''sample'')
   \<and> outcome (last (trace (snd (run_main (failing_ext ''sample'') 1 0))))
       = Inl (Raised ''RuntimeError'')
   \<and> fst (run_main (failing_ext ''sample'') 1 0) = Inl (Raised ''RuntimeError'')
   \<and> (Some ''vaedecode_8'', ''decode'')
       \<notin> set (map step_of (trace (snd (run_main (failing_ext ''sample'') 1 0))))
   \<and> (Some ''finale'', ''save_images'')
       \<notin> set (map step_of (trace (snd (run_main (failing_ext ''sample'') 1 0))))"
proof -
  let ?R = "run_main (failing_ext ''sample'') 1 0"
  have run: "?R = (fst ?R, snd ?R)" by simp
  have ne: "trace (snd ?R) \<noteq> []"
    and st: "step_of (last (trace (snd ?R))) = (Some ''ksampleradvanced_16'', ''sample'')"
    and out: "outcome (last (trace (snd ?R))) = Inl (Raised ''RuntimeError'')"
    using failing_run_eval by (simp_all add: case_prod_beta)
  have mem: "last (trace (snd ?R)) \<in> set (trace (snd ?R))" using ne by simp
  show ?thesis
    using sampler_failure_aborts_run[OF run mem st out] mem st out by blast
qed








text \<open>
  C10. Take two environments that answer every call but the MiDaS one alike, and run
  \<^verbatim>\<open>main\<close> in both from the same world with the same seed. If both runs return, the
  save receives the same \<^verbatim>\<open>images\<close> argument in both, whatever the MiDaS call
  returned: no later call reads its output. The MiDaS call (event 36) still comes before
  the save (event 38), so in any run where it raises the run ends with its exception and
  nothing is saved.
\<close>

theorem midas_output_never_reaches_save:
  "(agree_but_midas ext1 ext2
      \<and> run_main ext1 noise_seed w = (Inr r1, s1) \<and> run_main ext2 noise_seed w = (Inr r2, s2)
    \<longrightarrow> saved_images (trace s1) = saved_images (trace s2)
      \<and> (\<exists>images. saved_images (trace s1) = [Some images])
      \<and> step_of (trace s1 ! 36) = (Some ''midas_depthmappreprocessor_50'', ''execute'')
      \<and> step_of (trace s1 ! 38) = (Some ''finale'', ''save_images''))
   \<and> (run_main ext noise_seed w = (r, s') \<and> ev \<in> set (trace s')
      \<and> step_of ev = (Some ''midas_depthmappreprocessor_50'', ''execute'') \<and> outcome ev = Inl e
    \<longrightarrow> r = Inl e \<and> saved_images (trace s') = [])"
proof (intro conjI impI)
  assume h: "agree_but_midas ext1 ext2
      \<and> run_main ext1 noise_seed w = (Inr r1, s1) \<and> run_main ext2 noise_seed w = (Inr r2, s2)"
  then have run1: "run_main ext1 noise_seed w = (Inr r1, s1)" by simp
  show "saved_images (trace s1) = saved_images (trace s2)"
    using main_same_saved[of ext1 ext2 noise_seed] h
    unfolding same_saved_def run_main_def by blast
  show "\<exists>images. saved_images (trace s1) = [Some images]"
    using complete_run_saved_images[OF run1] save_input_of_complete_run[OF run1] by auto
  show "step_of (trace s1 ! 36) = (Some ''midas_depthmappreprocessor_50'', ''execute'')"
    using complete_run_step_at[OF run1, of 36] by (simp add: main_steps_def)
  show "step_of (trace s1 ! 38) = (Some ''finale'', ''save_images'')"
    using complete_run_step_at[OF run1, of 38] by (simp add: main_steps_def)
next
  assume h: "run_main ext noise_seed w = (r, s') \<and> ev \<in> set (trace s')
      \<and> step_of ev = (Some ''midas_depthmappreprocessor_50'', ''execute'') \<and> outcome ev = Inl e"
  then have run: "run_main ext noise_seed w = (r, s')" and ev: "ev \<in> set (trace s')"
    and out: "outcome ev = Inl e" by simp_all
  have k: "step_of ev = main_steps ! 36" using h by (simp add: main_steps_def)
  from failed_step_cuts_run[OF run ev out _ k] have
    f: "r = Inl e" "map step_of (trace s') = take 37 main_steps"
    by simp_all
  have "''save_images'' \<notin> set (map snd (take 37 main_steps))"
    unfolding main_steps_def by code_simp
  then have "saved_images (trace s') = []" using f(2) by (simp add: saved_images_none)
  then show "r = Inl e" "saved_images (trace s') = []" using f(1) by simp_all
qed

theorem midas_output_never_reaches_save_witness:
  "agree_but_midas stub_ext midas_variant_ext
   \<and> fst (run_main stub_ext 1 0) = Inr ()
   \<and> fst (run_main midas_variant_ext 1 0) = Inr ()
   \<and> outcome (trace (snd (run_main stub_ext 1 0)) ! 36)
       \<noteq> outcome (trace (snd (run_main midas_variant_ext 1 0)) ! 36)
   \<and> saved_images (trace (snd (run_main stub_ext 1 0)))
       = saved_images (trace (snd (run_main midas_variant_ext 1 0)))
   \<and> last (trace (snd (run_main midas_failing_ext 1 0)))
       \<in> set (trace (snd (run_main midas_failing_ext 1 0)))
   \<and> outcome (last (trace (snd (run_main midas_failing_ext 1 0)))) = Inl (Raised ''RuntimeError'')
   \<and> fst (run_main midas_failing_ext 1 0) = Inl (Raised ''RuntimeError'')
   \<and> saved_images (trace (snd (run_main midas_failing_ext 1 0))) = []"
proof -
  let ?A = "run_main stub_ext 1 0"
  let ?B = "run_main midas_variant_ext 1 0"
  let ?F = "run_main midas_failing_ext 1 0"
  have a: "?A = (Inr (), snd ?A)" by (rule stub_run_ok)
  have a36: "outcome (trace (snd ?A) ! 36)
      = Inr (VDict [(KStr ''ui'', VDict []), (KStr ''result'', VTuple [VObj 36])])"
    using stub_run_eval by (simp add: case_prod_beta)
  have b: "?B = (Inr (), snd ?B)"
    and b36: "outcome (trace (snd ?B) ! 36) = Inr (VTuple [VStr ''another depth map''])"
    using midas_variant_run_eval by (simp_all add: case_prod_beta prod_eq_iff)
  have ne: "trace (snd ?F) \<noteq> []"
    and st: "step_of (last (trace (snd ?F))) = (Some ''midas_depthmappreprocessor_50'', ''execute'')"
    and out: "outcome (last (trace (snd ?F))) = Inl (Raised ''RuntimeError'')"
    using midas_failing_run_eval by (simp_all add: case_prod_beta)
  have f: "?F = (fst ?F, snd ?F)" by simp
  have mem: "last (trace (snd ?F)) \<in> set (trace (snd ?F))" using ne by simp
  have differ: "outcome (trace (snd ?A) ! 36) \<noteq> outcome (trace (snd ?B) ! 36)"
    using a36 b36 by simp
  have oka: "fst ?A = Inr ()" using a by (metis fst_conv)
  have okb: "fst ?B = Inr ()" using b by (metis fst_conv)
  show ?thesis
    using midas_output_never_reaches_save[where ?ext1.0 = stub_ext and ?ext2.0 = midas_variant_ext
        and noise_seed = 1 and w = 0 and ?r1.0 = "()" and ?s1.0 = "snd ?A"
        and ?r2.0 = "()" and ?s2.0 = "snd ?B"
        and ext = midas_failing_ext and r = "fst ?F" and s' = "snd ?F"
        and ev = "last (trace (snd ?F))" and e = "Raised ''RuntimeError''"]
      agree_stub_midas_variant a b f mem st out differ oka okb
    by blast
qed

end
